theory Spec2Isabelle
  imports Main
begin

section \<open>The chat controller of the NLP-to-SQL dashboard (component ChatBot)\<close>

text \<open>
  The component keeps its whole state in React state variables and changes it only through
  the handlers \<open>handleSendMessage\<close>, \<open>handlePageChange\<close>, \<open>loadSessionMessages\<close>,
  \<open>handleSessionSelect\<close> and \<open>fetchSessionInfo\<close>. Each handler is embedded as a function
  from the state before to the state after. Whatever a handler obtains from outside (the
  settled value of an awaited backend call, a reading of \<open>Date.now()\<close>, a draw of
  \<open>Math.random()\<close>) is an explicit argument. A rejected promise is the constructor
  \<open>Rejected\<close> with the thrown value, a \<open>try\<close> body that can throw by itself returns a sum
  whose left summand is the thrown value, and the handler's \<open>catch\<close> block is the branch
  for either.

  Strings are byte sequences (UTF-8). The row payload of a result (\<open>any[]\<close>, possibly
  \<open>undefined\<close>) is never inspected by the controller, so it is the type parameter \<open>'d\<close>.
\<close>

subsection \<open>JavaScript values\<close>

text \<open>A value of type \<open>string | null | undefined\<close> is truthy iff it is a non-empty string.\<close>

definition truthy :: "string option \<Rightarrow> bool" where
  "truthy v = (case v of None \<Rightarrow> False | Some s \<Rightarrow> s \<noteq> [])"

text \<open>\<open>a || b\<close> on such values, with a string as the last alternative.\<close>

definition or_else :: "string option \<Rightarrow> string \<Rightarrow> string" where
  "or_else v d = (case v of None \<Rightarrow> d | Some s \<Rightarrow> if s \<noteq> [] then s else d)"

text \<open>Decimal rendering of a non-negative integer, as \<open>toString()\<close> and template literals give it.\<close>

definition digit :: "nat \<Rightarrow> char" where
  "digit n = ''0123456789'' ! n"

fun dec :: "nat \<Rightarrow> string" where
  "dec n = (if n < 10 then [digit n] else dec (n div 10) @ [digit (n mod 10)])"

declare dec.simps [simp del]

definition show_int :: "int \<Rightarrow> string" where
  "show_int i = (if i < 0 then CHR ''-'' # dec (nat (- i)) else dec (nat i))"

text \<open>
  A JavaScript number inside a template literal. An integer of magnitude below \<open>2^53\<close>
  is printed with exactly its decimal digits; that is the type \<open>safe_int\<close>. Any other
  number (a fraction, a larger magnitude, \<open>NaN\<close>, an infinity) is not computed with by
  the component and is given as \<open>Other\<close> together with the text the template literal
  prints for it.
\<close>

typedef safe_int = "{i :: int. \<bar>i\<bar> < 2 ^ 53}"
  by (rule exI[of _ 0]) simp

datatype js_number = Whole safe_int | Other string

definition template_number :: "js_number \<Rightarrow> string" where
  "template_number n = (case n of Whole i \<Rightarrow> show_int (Rep_safe_int i) | Other s \<Rightarrow> s)"

text \<open>
  Reading a decimal numeral back: the value of a digit, of a digit string, and of a digit
  string with an optional minus sign. These are not part of the component; they say what
  number a printed text stands for.
\<close>

definition digit_value :: "char \<Rightarrow> nat" where
  "digit_value c = of_char c - 48"

definition read_dec :: "string \<Rightarrow> nat" where
  "read_dec s = foldl (\<lambda>a c. 10 * a + digit_value c) 0 s"

definition read_int :: "string \<Rightarrow> int" where
  "read_int s =
     (case s of
        [] \<Rightarrow> 0
      | c # r \<Rightarrow> if c = CHR ''-'' then - int (read_dec r) else int (read_dec s))"

text \<open>
  What an awaited call settles to. A thrown value is an instance of \<open>Error\<close> with its
  message, or \<open>null\<close> or \<open>undefined\<close>, or some other value with its \<open>message\<close> property,
  if it has one.
\<close>

datatype nullish = Null | Undefined

datatype thrown = JsError string | NonError "string option" | Nullish nullish

datatype 'a settled = Rejected thrown | Resolved 'a

text \<open>
  What the promise of an asynchronous handler settles to: it is fulfilled, or an
  exception escapes the handler and the promise is rejected with it. Both come with the
  state of the component at that moment.
\<close>

datatype 's outcome = Fulfilled 's | Escaped thrown 's

definition state_after :: "'s outcome \<Rightarrow> 's" where
  "state_after r = (case r of Fulfilled s \<Rightarrow> s | Escaped e s \<Rightarrow> s)"

definition escaped :: "'s outcome \<Rightarrow> thrown option" where
  "escaped r = (case r of Fulfilled s \<Rightarrow> None | Escaped e s \<Rightarrow> Some e)"

subsection \<open>Data model\<close>

text \<open>
  Interface \<open>PaginationInfo\<close>. The object comes from the backend untyped, and the code
  guards against a missing \<open>table_id\<close>, so the field is optional here.
\<close>

record PaginationInfo =
  pg_table_id :: "string option"
  current_page :: int
  total_pages :: int
  total_rows :: int
  page_size :: int
  has_next :: "bool option"
  has_prev :: "bool option"

text \<open>Interface \<open>TableInfo\<close>.\<close>

record 'd TableInfo =
  tbl_name :: string
  tbl_description :: string
  tbl_sql :: string
  results :: 'd
  row_count :: int
  tbl_table_id :: "string option"
  tbl_pagination :: "PaginationInfo option"

text \<open>The two result payloads of interface \<open>ChatMessage\<close>.\<close>

record 'd SqlResult =
  sql :: string
  data :: 'd
  error :: "string option"
  pagination :: "PaginationInfo option"
  table_id :: "string option"

record 'd AnalysisResult =
  tables :: "'d TableInfo list"
  analysis_type :: "string option"

text \<open>
  Interface \<open>ChatMessage\<close>. \<open>timestamp\<close> is the \<open>Date\<close> in milliseconds. \<open>query_type\<close> is
  assigned from the untyped response, so at run time it holds any string or nothing.
\<close>

record 'd ChatMessage =
  msg_id :: string
  isUser :: bool
  msg_text :: string
  timestamp :: nat
  query_type :: "string option"
  sqlResult :: "'d SqlResult option"
  analysisResult :: "'d AnalysisResult option"

text \<open>A message literal that sets only \<open>id\<close>, \<open>isUser\<close>, \<open>text\<close> and \<open>timestamp\<close>
  (the fields \<open>id\<close> and \<open>text\<close> are \<open>msg_id\<close> and \<open>msg_text\<close> here).\<close>

definition plain_message :: "string \<Rightarrow> bool \<Rightarrow> string \<Rightarrow> nat \<Rightarrow> 'd ChatMessage" where
  "plain_message i u t ts =
     \<lparr>msg_id = i, isUser = u, msg_text = t, timestamp = ts, query_type = None,
      sqlResult = None, analysisResult = None\<rparr>"

text \<open>Interface \<open>PaginationState\<close>.\<close>

record PaginationState =
  messageId :: string
  tableId :: string
  currentPage :: js_number

text \<open>The session info object (untyped): only \<open>error\<close> and \<open>description\<close> are read.\<close>

record SessionInfo =
  info_error :: bool
  info_description :: string

text \<open>The state variables of the component that the handlers below read or write.\<close>

record 'd ChatState =
  messages :: "'d ChatMessage list"
  input :: string
  isProcessing :: bool
  sessionId :: "string option"
  sessionInfo :: "SessionInfo option"
  showSessionsList :: bool
  paginationState :: "PaginationState option"

text \<open>The two readings of the clock in a message literal: \<open>Date.now()\<close> and \<open>new Date()\<close>.\<close>

record clock =
  date_now :: nat
  new_date :: nat

definition welcome_text :: string where
  "welcome_text =
     ''Hello! I can help you query your database using natural language. How can I help you today?''"

text \<open>The initial value of \<open>messages\<close>.\<close>

definition initial_messages :: "nat \<Rightarrow> 'd ChatMessage list" where
  "initial_messages ts = [plain_message ''welcome'' False welcome_text ts]"

definition initial_state :: "nat \<Rightarrow> 'd ChatState" where
  "initial_state ts =
     \<lparr>messages = initial_messages ts, input = [], isProcessing = False, sessionId = None,
      sessionInfo = None, showSessionsList = False, paginationState = None\<rparr>"

subsection \<open>handlePageChange\<close>

text \<open>The response of \<open>getPaginatedResults\<close>: \<open>{ data, pagination }\<close>.\<close>

record 'd PageResponse =
  resp_data :: 'd
  resp_pagination :: "PaginationInfo option"

text \<open>\<open>result.pagination?.table_id || tableId\<close>\<close>

definition currentTableId :: "'d PageResponse \<Rightarrow> string \<Rightarrow> string" where
  "currentTableId result tid =
     or_else (case resp_pagination result of None \<Rightarrow> None | Some p \<Rightarrow> pg_table_id p) tid"

text \<open>The function mapped over \<open>msg.analysisResult.tables\<close>.\<close>

definition update_table :: "'d PageResponse \<Rightarrow> string \<Rightarrow> 'd TableInfo \<Rightarrow> 'd TableInfo" where
  "update_table result tid tbl =
     (if tbl_table_id tbl = Some tid
      then tbl\<lparr>results := resp_data result, tbl_pagination := resp_pagination result,
               tbl_table_id := Some (currentTableId result tid)\<rparr>
      else tbl)"

text \<open>The function mapped over \<open>prevMessages\<close>.\<close>

definition update_message ::
  "'d PageResponse \<Rightarrow> string \<Rightarrow> string \<Rightarrow> 'd ChatMessage \<Rightarrow> 'd ChatMessage" where
  "update_message result mid tid msg =
     (if msg_id msg = mid \<and> sqlResult msg \<noteq> None then
        msg\<lparr>sqlResult :=
              map_option (\<lambda>sr. sr\<lparr>data := resp_data result,
                                    pagination := resp_pagination result,
                                    table_id := Some (currentTableId result tid)\<rparr>)
                (sqlResult msg)\<rparr>
      else if msg_id msg = mid \<and> analysisResult msg \<noteq> None then
        msg\<lparr>analysisResult :=
              map_option (\<lambda>ar. ar\<lparr>tables := map (update_table result tid) (tables ar)\<rparr>)
                (analysisResult msg)\<rparr>
      else msg)"

text \<open>
  The message of the \<open>catch\<close> block:
  \<open>`Error loading page ${newPage}: ${error instanceof Error ? error.message : 'Unknown error'}`\<close>.
\<close>

definition pagination_error_message :: "clock \<Rightarrow> js_number \<Rightarrow> thrown \<Rightarrow> 'd ChatMessage" where
  "pagination_error_message c newPage e =
     plain_message (''pagination-error-'' @ dec (date_now c)) False
       (''Error loading page '' @ template_number newPage @ '': '' @
          (case e of JsError m \<Rightarrow> m | NonError _ \<Rightarrow> ''Unknown error''
           | Nullish _ \<Rightarrow> ''Unknown error''))
       (new_date c)"

text \<open>
  The handler. \<open>response\<close> is what \<open>getPaginatedResults(sessionId, tableId, newPage)\<close>
  settles to, \<open>c\<close> the clock as the \<open>catch\<close> block reads it. The guard returns before
  anything is set. \<open>isProcessing\<close> is set while the call is pending and cleared by
  \<open>finally\<close> on both paths; the state returned is the one after \<open>finally\<close>.
\<close>

definition handlePageChange ::
  "string \<Rightarrow> string \<Rightarrow> js_number \<Rightarrow> 'd PageResponse settled \<Rightarrow> clock \<Rightarrow> 'd ChatState \<Rightarrow>
   'd ChatState" where
  "handlePageChange mid tid newPage response c st =
     (if \<not> truthy (sessionId st) \<or> tid = [] then st
      else
        (case response of
           Resolved result \<Rightarrow>
             st\<lparr>messages := map (update_message result mid tid) (messages st),
                paginationState :=
                  Some \<lparr>messageId = mid, tableId = currentTableId result tid,
                        currentPage = newPage\<rparr>,
                isProcessing := False\<rparr>
         | Rejected e \<Rightarrow>
             st\<lparr>messages := messages st @ [pagination_error_message c newPage e],
                isProcessing := False\<rparr>))"

subsection \<open>handleSendMessage\<close>

text \<open>
  \<open>!input.trim()\<close>: the input is empty or consists of white space and line terminators
  only. \<open>ws1\<close>, \<open>ws2\<close> and \<open>ws3\<close> recognise the UTF-8 encodings of the code points that
  \<open>trim\<close> strips: U+0009 to U+000D and U+0020; U+00A0; U+1680, U+2000 to U+200A, U+2028,
  U+2029, U+202F, U+205F, U+3000 and U+FEFF.
\<close>

definition ws1 :: "char \<Rightarrow> bool" where
  "ws1 a = (of_char a \<in> {9, 10, 11, 12, 13, 32 :: nat})"

definition ws2 :: "char \<Rightarrow> char \<Rightarrow> bool" where
  "ws2 a b = (of_char a = (0xC2 :: nat) \<and> of_char b = (0xA0 :: nat))"

definition ws3 :: "char \<Rightarrow> char \<Rightarrow> char \<Rightarrow> bool" where
  "ws3 a b c =
     (let x = of_char a :: nat; y = of_char b :: nat; z = of_char c :: nat in
        (x = 0xE1 \<and> y = 0x9A \<and> z = 0x80) \<or>
        (x = 0xE2 \<and> y = 0x80 \<and> (0x80 \<le> z \<and> z \<le> 0x8A \<or> z = 0xA8 \<or> z = 0xA9 \<or> z = 0xAF)) \<or>
        (x = 0xE2 \<and> y = 0x81 \<and> z = 0x9F) \<or>
        (x = 0xE3 \<and> y = 0x80 \<and> z = 0x80) \<or>
        (x = 0xEF \<and> y = 0xBB \<and> z = 0xBF))"

fun blank :: "string \<Rightarrow> bool" where
  "blank [] = True"
| "blank [a] = ws1 a"
| "blank [a, b] = (if ws1 a then blank [b] else ws2 a b)"
| "blank (a # b # c # r) =
     (if ws1 a then blank (b # c # r)
      else if ws2 a b then blank (c # r)
      else if ws3 a b c then blank r
      else False)"

declare blank.simps [simp del]

text \<open>The response of \<open>executeQuery\<close> (untyped): the fields the handler reads.\<close>

record 'd QueryResponse =
  r_text :: "string option"
  r_message :: "string option"
  r_query_type :: "string option"
  r_sql :: "string option"
  r_data :: 'd
  r_error :: "string option"
  r_pagination :: "PaginationInfo option"
  r_table_id :: "string option"
  r_tables :: "'d TableInfo list option"
  r_analysis_type :: "string option"

text \<open>The response of \<open>createSession\<close>: \<open>_id\<close> and \<open>name\<close> are read.\<close>

record SessionData =
  sd_id :: "string option"
  sd_name :: string

text \<open>
  One evaluation of \<open>Date.now()\<close> and of \<open>Math.random().toString(36).substring(2, 9)\<close>,
  as the table at a given position of \<open>result.tables\<close> would obtain them.
\<close>

record draw =
  draw_now :: nat
  draw_suffix :: string

text \<open>
  What one call of the handler obtains from outside: the clock at the user message, what
  \<open>createSession\<close> settles to (awaited only when a session is auto-created), the clock at
  the message that follows it, what \<open>executeQuery\<close> settles to, the draws of the table
  ids, and the clock at the last message.
\<close>

record 'd SendEnv =
  user_clock :: clock
  created :: "SessionData settled"
  system_clock :: clock
  executed :: "'d QueryResponse settled"
  draws :: "nat \<Rightarrow> draw"
  bot_clock :: clock

text \<open>The leading symbols of the notices, as the bytes of the source file.\<close>

definition glyph_ok :: string where
  "glyph_ok = map char_of [0xC3, 0xA2, 0xC5, 0x93, 0xE2, 0x80, 0xA6 :: nat]"

definition glyph_fail :: string where
  "glyph_fail = map char_of [0xC3, 0xA2, 0xC5, 0x92 :: nat]"

definition glyph_warn :: string where
  "glyph_warn = map char_of [0xC3, 0xA2, 0xC5, 0xA1, 0xC2, 0xA0, 0xC3, 0xAF, 0xC2, 0xB8 :: nat]"

text \<open>\<open>table.table_id || `table-${Date.now()}-${Math.random().toString(36).substring(2, 9)}`\<close>\<close>

definition synthesized_id :: "draw \<Rightarrow> string" where
  "synthesized_id d = ''table-'' @ dec (draw_now d) @ ''-'' @ draw_suffix d"

text \<open>The function mapped over \<open>result.tables\<close>; \<open>d\<close> is the draw at the table's position.\<close>

definition with_table_id :: "draw \<Rightarrow> 'd TableInfo \<Rightarrow> 'd TableInfo" where
  "with_table_id d tbl =
     tbl\<lparr>tbl_table_id := Some (or_else (tbl_table_id tbl) (synthesized_id d)),
         tbl_pagination := tbl_pagination tbl\<rparr>"

definition tablesWithIds :: "(nat \<Rightarrow> draw) \<Rightarrow> 'd TableInfo list \<Rightarrow> 'd TableInfo list" where
  "tablesWithIds ds tbls = map (\<lambda>(i, tbl). with_table_id (ds i) tbl) (enumerate 0 tbls)"

text \<open>
  The message built from a resolved response. \<open>result.tables.map\<close> throws a
  \<open>TypeError\<close> when \<open>tables\<close> is missing (the message text is the engine's).
\<close>

definition botMessage ::
  "clock \<Rightarrow> (nat \<Rightarrow> draw) \<Rightarrow> 'd QueryResponse \<Rightarrow> thrown + 'd ChatMessage" where
  "botMessage c ds result =
     (let responseMessage =
            or_else (r_text result) (or_else (r_message result) ''Query executed successfully.'');
          reply = (plain_message (''response-'' @ dec (date_now c)) False responseMessage
                   (new_date c))\<lparr>query_type := r_query_type result\<rparr>
      in if r_query_type result = Some ''sql'' then
           Inr (reply\<lparr>sqlResult :=
                  Some \<lparr>sql = or_else (r_sql result) [], data = r_data result,
                        error = r_error result, pagination = r_pagination result,
                        table_id = r_table_id result\<rparr>\<rparr>)
         else if r_query_type result = Some ''analysis'' then
           (case r_tables result of
              None \<Rightarrow> Inl (JsError ''Cannot read properties of undefined (reading 'map')'')
            | Some tbls \<Rightarrow>
                Inr (reply\<lparr>analysisResult :=
                       Some \<lparr>tables = tablesWithIds ds tbls,
                             analysis_type = r_analysis_type result\<rparr>\<rparr>))
         else Inr reply)"

text \<open>
  The message of the outer \<open>catch\<close> block,
  \<open>`Error: ${error.message || 'Failed to execute query'}`\<close>; \<open>m\<close> is the \<open>message\<close>
  property of the thrown value.
\<close>

definition query_error_message :: "clock \<Rightarrow> string option \<Rightarrow> 'd ChatMessage" where
  "query_error_message c m =
     plain_message (''error-'' @ dec (date_now c)) False
       (''Error: '' @ or_else m ''Failed to execute query'') (new_date c)"

text \<open>The literals \<open>userMessage\<close>, \<open>systemMessage\<close> and \<open>errorMessage\<close> (of the inner
  \<open>catch\<close>).\<close>

definition user_turn :: "'d SendEnv \<Rightarrow> string \<Rightarrow> 'd ChatMessage" where
  "user_turn env inp =
     plain_message (dec (date_now (user_clock env))) True inp (new_date (user_clock env))"

definition created_turn :: "'d SendEnv \<Rightarrow> SessionData \<Rightarrow> 'd ChatMessage" where
  "created_turn env sessionData =
     plain_message (''system-'' @ dec (date_now (system_clock env))) False
       (glyph_ok @ '' Created new session: '' @ sd_name sessionData)
       (new_date (system_clock env))"

definition create_failed_turn :: "'d SendEnv \<Rightarrow> 'd ChatMessage" where
  "create_failed_turn env =
     plain_message (''error-'' @ dec (date_now (system_clock env))) False
       (glyph_fail @ '' Failed to create session. Please try connecting to the workspace again.'')
       (new_date (system_clock env))"

text \<open>
  The handler runs in three stretches, separated by its two \<open>await\<close>s. The first appends
  the user message, clears the input and sets \<open>isProcessing\<close>.
\<close>

definition send_started :: "'d SendEnv \<Rightarrow> 'd ChatState \<Rightarrow> 'd ChatState" where
  "send_started env st =
     st\<lparr>messages := messages st @ [user_turn env (input st)], input := [],
        isProcessing := True\<rparr>"

text \<open>
  The second is the auto-creation of a session, entered when no session is active and a
  workspace is connected. Its own \<open>catch\<close> returns from the handler after its message
  (left summand); otherwise the handler goes on (right summand).
\<close>

definition needs_session :: "string option \<Rightarrow> 'd ChatState \<Rightarrow> bool" where
  "needs_session workspaceId st = (\<not> truthy (sessionId st) \<and> truthy workspaceId)"

definition provision_session ::
  "string option \<Rightarrow> 'd SendEnv \<Rightarrow> 'd ChatState \<Rightarrow> 'd ChatState + 'd ChatState" where
  "provision_session workspaceId env st =
     (if needs_session workspaceId st then
        (case created env of
           Resolved sessionData \<Rightarrow>
             Inr (st\<lparr>sessionId := sd_id sessionData,
                     messages := messages st @ [created_turn env sessionData]\<rparr>)
         | Rejected e \<Rightarrow>
             Inl (st\<lparr>messages := messages st @ [create_failed_turn env],
                     isProcessing := False\<rparr>))
      else Inr st)"

text \<open>
  The third is the rest of the outer \<open>try\<close>, from the settlement of \<open>executeQuery\<close> on. A
  value thrown in it comes with the state reached by then.
\<close>

definition send_reply ::
  "'d SendEnv \<Rightarrow> 'd ChatState \<Rightarrow> (thrown \<times> 'd ChatState) + 'd ChatState" where
  "send_reply env st1 =
     (case executed env of
        Rejected e \<Rightarrow> Inl (e, st1)
      | Resolved result \<Rightarrow>
          (case botMessage (bot_clock env) (draws env) result of
             Inl e \<Rightarrow> Inl (e, st1)
           | Inr reply \<Rightarrow> Inr (st1\<lparr>messages := messages st1 @ [reply]\<rparr>)))"

text \<open>The body of the outer \<open>try\<close>, run on the state with the user message appended.\<close>

definition send_try ::
  "string option \<Rightarrow> 'd SendEnv \<Rightarrow> 'd ChatState \<Rightarrow> (thrown \<times> 'd ChatState) + 'd ChatState" where
  "send_try workspaceId env st =
     (case provision_session workspaceId env st of
        Inl returned \<Rightarrow> Inr returned
      | Inr st1 \<Rightarrow> send_reply env st1)"

text \<open>
  The outer \<open>catch\<close> and \<open>finally\<close>. The \<open>catch\<close> block reads \<open>error.message\<close>; on a thrown
  \<open>null\<close> or \<open>undefined\<close> that read throws a \<open>TypeError\<close> (the message text is the
  engine's), no message is appended, \<open>finally\<close> still runs, and the exception escapes the
  handler.
\<close>

definition send_settled ::
  "'d SendEnv \<Rightarrow> (thrown \<times> 'd ChatState) + 'd ChatState \<Rightarrow> 'd ChatState outcome" where
  "send_settled env r =
     (case r of
        Inr st1 \<Rightarrow> Fulfilled (st1\<lparr>isProcessing := False\<rparr>)
      | Inl (e, st1) \<Rightarrow>
          (case e of
             JsError m \<Rightarrow>
               Fulfilled (st1\<lparr>messages := messages st1 @
                                 [query_error_message (bot_clock env) (Some m)],
                              isProcessing := False\<rparr>)
           | NonError m \<Rightarrow>
               Fulfilled (st1\<lparr>messages := messages st1 @
                                 [query_error_message (bot_clock env) m],
                              isProcessing := False\<rparr>)
           | Nullish n \<Rightarrow>
               Escaped (JsError (''Cannot read properties of '' @
                                 (case n of Null \<Rightarrow> ''null'' | Undefined \<Rightarrow> ''undefined'') @
                                 '' (reading 'message')''))
                 (st1\<lparr>isProcessing := False\<rparr>)))"

text \<open>The handler; \<open>workspaceId\<close> is the component's property.\<close>

definition handleSendMessage_outcome ::
  "string option \<Rightarrow> 'd SendEnv \<Rightarrow> 'd ChatState \<Rightarrow> 'd ChatState outcome" where
  "handleSendMessage_outcome workspaceId env st =
     (if blank (input st) then Fulfilled st
      else send_settled env (send_try workspaceId env (send_started env st)))"

definition handleSendMessage ::
  "string option \<Rightarrow> 'd SendEnv \<Rightarrow> 'd ChatState \<Rightarrow> 'd ChatState" where
  "handleSendMessage workspaceId env st = state_after (handleSendMessage_outcome workspaceId env st)"

text \<open>The property \<open>isConversational\<close> that the transcript passes to \<open>Message\<close>, and the
  conditions under which it renders the result tables of a turn.\<close>

definition isConversational :: "'d ChatMessage \<Rightarrow> bool" where
  "isConversational message =
     (\<not> isUser message \<and> query_type message = Some ''conversational'')"

definition renders_sql :: "'d ChatMessage \<Rightarrow> bool" where
  "renders_sql message = (query_type message = Some ''sql'' \<and> sqlResult message \<noteq> None)"

definition renders_analysis :: "'d ChatMessage \<Rightarrow> bool" where
  "renders_analysis message =
     (query_type message = Some ''analysis'' \<and> analysisResult message \<noteq> None)"

subsection \<open>loadSessionMessages, fetchSessionInfo and handleSessionSelect\<close>

text \<open>
  A persisted message as \<open>getSessionMessages\<close> returns it (untyped), with the fields of
  its \<open>query_result\<close> that the conversion reads. The three flags stand for the truthiness
  of \<open>is_conversational\<close>, \<open>is_multi_query\<close> and \<open>is_why_analysis\<close>; \<open>created_at\<close> is the
  time it parses to, when present.
\<close>

record 'd StoredResult =
  is_conversational :: bool
  is_multi_query :: bool
  is_why_analysis :: bool
  q_sql :: "string option"
  q_results :: 'd
  q_error :: "string option"
  q_pagination :: "PaginationInfo option"
  q_tables :: "'d TableInfo list option"
  q_analysis_type :: "string option"

record 'd StoredMessage =
  stored_id :: "string option"
  role :: string
  content :: string
  created_at :: "nat option"
  query_result :: "'d StoredResult option"

text \<open>
  What the conversion of one persisted message may read from outside: \<open>Date.now()\<close> and
  \<open>Math.random()\<close> (as printed) for a missing \<open>_id\<close>, \<open>Date.now()\<close> for a missing
  \<open>created_at\<close>.
\<close>

record convert_env =
  id_now :: nat
  id_random :: string
  ts_now :: nat

text \<open>The chain that determines \<open>queryType\<close>.\<close>

definition queryType :: "'d StoredResult option \<Rightarrow> string option" where
  "queryType queryResult =
     (case queryResult of
        None \<Rightarrow> None
      | Some q \<Rightarrow>
          if is_conversational q then Some ''conversational''
          else if is_multi_query q \<or> is_why_analysis q then Some ''analysis''
          else if truthy (q_sql q) then Some ''sql''
          else None)"

text \<open>The function mapped over \<open>sessionMessages\<close>.\<close>

definition convertMessage :: "convert_env \<Rightarrow> 'd StoredMessage \<Rightarrow> 'd ChatMessage" where
  "convertMessage e msg =
     \<lparr>msg_id = or_else (stored_id msg) (''msg-'' @ dec (id_now e) @ ''-'' @ id_random e),
      isUser = (role msg = ''user''),
      msg_text = content msg,
      timestamp = (case created_at msg of Some t \<Rightarrow> t | None \<Rightarrow> ts_now e),
      query_type = queryType (query_result msg),
      sqlResult =
        (case query_result msg of
           None \<Rightarrow> None
         | Some q \<Rightarrow>
             if truthy (q_sql q)
             then Some \<lparr>sql = or_else (q_sql q) [], data = q_results q, error = q_error q,
                        pagination = q_pagination q,
                        table_id = (case q_pagination q of None \<Rightarrow> None
                                    | Some p \<Rightarrow> pg_table_id p)\<rparr>
             else None),
      analysisResult =
        (case query_result msg of
           None \<Rightarrow> None
         | Some q \<Rightarrow>
             (case q_tables q of
                None \<Rightarrow> None
              | Some tbls \<Rightarrow> Some \<lparr>tables = tbls, analysis_type = q_analysis_type q\<rparr>))\<rparr>"

definition convertedMessages ::
  "(nat \<Rightarrow> convert_env) \<Rightarrow> 'd StoredMessage list \<Rightarrow> 'd ChatMessage list" where
  "convertedMessages es sessionMessages =
     map (\<lambda>(i, msg). convertMessage (es i) msg) (enumerate 0 sessionMessages)"

text \<open>
  What \<open>loadSessionMessages\<close> obtains from outside: what \<open>getSessionMessages(sessionId)\<close>
  settles to, the readings of the conversion at each position, \<open>new Date()\<close> at the
  welcome message or at the message of the \<open>catch\<close> block, and the clock at the notice
  that is appended.
\<close>

record 'd LoadEnv =
  fetched_messages :: "'d StoredMessage list settled"
  conversions :: "nat \<Rightarrow> convert_env"
  welcome_date :: nat
  notice_clock :: clock

text \<open>The notices of the two branches and the message of the \<open>catch\<close> block.\<close>

definition loaded_turn :: "'d LoadEnv \<Rightarrow> nat \<Rightarrow> 'd ChatMessage" where
  "loaded_turn env n =
     plain_message (''system-'' @ dec (date_now (notice_clock env))) False
       (glyph_ok @ '' Loaded '' @ dec n @ '' messages from session'')
       (new_date (notice_clock env))"

definition empty_session_turn :: "'d LoadEnv \<Rightarrow> 'd ChatMessage" where
  "empty_session_turn env =
     plain_message (''system-'' @ dec (date_now (notice_clock env))) False
       (glyph_ok @ '' Session loaded (no previous messages)'') (new_date (notice_clock env))"

definition error_loading_turn :: "'d LoadEnv \<Rightarrow> 'd ChatMessage" where
  "error_loading_turn env =
     plain_message ''error-loading'' False
       (glyph_fail @ '' Failed to load session messages. Starting with a fresh chat.'')
       (welcome_date env)"

text \<open>The body of the \<open>try\<close>, and the handler with its \<open>catch\<close> block.\<close>

definition load_try :: "'d LoadEnv \<Rightarrow> 'd ChatState \<Rightarrow> thrown + 'd ChatState" where
  "load_try env st =
     (case fetched_messages env of
        Rejected e \<Rightarrow> Inl e
      | Resolved sessionMessages \<Rightarrow>
          (let converted = convertedMessages (conversions env) sessionMessages in
           if length converted > 0 then
             Inr (st\<lparr>messages := converted @ [loaded_turn env (length converted)]\<rparr>)
           else
             Inr (st\<lparr>messages :=
                       [plain_message ''welcome'' False welcome_text (welcome_date env)] @
                       [empty_session_turn env]\<rparr>)))"

definition loadSessionMessages_outcome :: "'d LoadEnv \<Rightarrow> 'd ChatState \<Rightarrow> 'd ChatState outcome" where
  "loadSessionMessages_outcome env st =
     (case load_try env st of
        Inr st1 \<Rightarrow> Fulfilled st1
      | Inl e \<Rightarrow> Fulfilled (st\<lparr>messages := [error_loading_turn env]\<rparr>))"

definition loadSessionMessages :: "'d LoadEnv \<Rightarrow> 'd ChatState \<Rightarrow> 'd ChatState" where
  "loadSessionMessages env st = state_after (loadSessionMessages_outcome env st)"

text \<open>
  \<open>fetchSessionInfo\<close> reads the \<open>sessionId\<close> of the render that created it, here the
  argument \<open>sid\<close>, and returns at once when that is not set. Otherwise it awaits
  \<open>getSessionInfo(sessionId)\<close>; \<open>info_settled\<close> is what it does once that call has settled,
  on the state of that moment. It obtains from outside what the call settles to and the
  clock at the warning. The \<open>catch\<close> block resets the session and adds no message.
\<close>

record InfoEnv =
  fetched_info :: "SessionInfo settled"
  info_clock :: clock

definition session_warning_turn :: "InfoEnv \<Rightarrow> SessionInfo \<Rightarrow> 'd ChatMessage" where
  "session_warning_turn env info =
     plain_message (''session-error-'' @ dec (date_now (info_clock env))) False
       (glyph_warn @ '' '' @ info_description info) (new_date (info_clock env))"

definition info_try :: "InfoEnv \<Rightarrow> 'd ChatState \<Rightarrow> thrown + 'd ChatState" where
  "info_try env st =
     (case fetched_info env of
        Rejected e \<Rightarrow> Inl e
      | Resolved info \<Rightarrow>
          (let st1 = st\<lparr>sessionInfo := Some info\<rparr> in
           if info_error info then
             Inr (st1\<lparr>messages := messages st1 @ [session_warning_turn env info]\<rparr>)
           else Inr st1))"

definition info_settled_outcome :: "InfoEnv \<Rightarrow> 'd ChatState \<Rightarrow> 'd ChatState outcome" where
  "info_settled_outcome env st =
     (case info_try env st of
        Inr st1 \<Rightarrow> Fulfilled st1
      | Inl e \<Rightarrow> Fulfilled (st\<lparr>sessionId := None, sessionInfo := None\<rparr>))"

definition info_settled :: "InfoEnv \<Rightarrow> 'd ChatState \<Rightarrow> 'd ChatState" where
  "info_settled env st = state_after (info_settled_outcome env st)"

definition fetchSessionInfo_outcome ::
  "string option \<Rightarrow> InfoEnv \<Rightarrow> 'd ChatState \<Rightarrow> 'd ChatState outcome" where
  "fetchSessionInfo_outcome sid env st =
     (if \<not> truthy sid then Fulfilled st else info_settled_outcome env st)"

definition fetchSessionInfo :: "string option \<Rightarrow> InfoEnv \<Rightarrow> 'd ChatState \<Rightarrow> 'd ChatState" where
  "fetchSessionInfo sid env st = state_after (fetchSessionInfo_outcome sid env st)"

text \<open>
  \<open>handleSessionSelect\<close> by itself; \<open>loading_date\<close> is \<open>new Date()\<close> at the placeholder.
  The call of \<open>fetchSessionInfo\<close> at its end is the one of the render in which the handler
  was created, so it reads the session id from before the selection.
\<close>

definition select_started :: "string \<Rightarrow> nat \<Rightarrow> 'd ChatState \<Rightarrow> 'd ChatState" where
  "select_started selectedSessionId loading_date st =
     st\<lparr>sessionId := Some selectedSessionId, showSessionsList := False,
        messages := [plain_message ''loading'' False ''Loading session messages...''
                       loading_date]\<rparr>"

definition handleSessionSelect ::
  "string \<Rightarrow> nat \<Rightarrow> 'd LoadEnv \<Rightarrow> InfoEnv \<Rightarrow> 'd ChatState \<Rightarrow> 'd ChatState" where
  "handleSessionSelect selectedSessionId loading_date lenv ienv st =
     (let st1 = select_started selectedSessionId loading_date st;
          st2 = loadSessionMessages lenv st1
      in fetchSessionInfo (sessionId st) ienv st2)"

text \<open>
  The effect that depends on \<open>sessionId\<close> runs after a render in which the session id has
  changed from \<open>before\<close>, and calls the \<open>fetchSessionInfo\<close> of that render when the id is
  set: it fetches the session info of the new id.
\<close>

definition effect_fetches :: "string option \<Rightarrow> 'd ChatState \<Rightarrow> bool" where
  "effect_fetches before st = (sessionId st \<noteq> before \<and> truthy (sessionId st))"

text \<open>
  A selection as a whole. After the first stretch of the handler the component renders
  and the effect issues its fetch for the selected session, while the handler awaits the
  messages; the handler issues its own fetch, for the session from before, only when the
  messages have arrived. The effect's fetch therefore settles before the messages
  arrive, or between their arrival and the settlement of the handler's fetch, or last.
  \<open>ienv\<close> is for the handler's fetch, \<open>ienv'\<close> for the effect's.
\<close>

datatype effect_position = EffectFirst | EffectBetween | EffectLast

definition select_session ::
  "string \<Rightarrow> nat \<Rightarrow> 'd LoadEnv \<Rightarrow> InfoEnv \<Rightarrow> InfoEnv \<Rightarrow> effect_position \<Rightarrow> 'd ChatState \<Rightarrow>
   'd ChatState" where
  "select_session selectedSessionId loading_date lenv ienv ienv' pos st =
     (let st1 = select_started selectedSessionId loading_date st;
          effect = (if effect_fetches (sessionId st) st1 then info_settled ienv' else (\<lambda>s. s));
          load = loadSessionMessages lenv;
          own = fetchSessionInfo (sessionId st) ienv
      in case pos of
           EffectFirst \<Rightarrow> own (load (effect st1))
         | EffectBetween \<Rightarrow> own (effect (load st1))
         | EffectLast \<Rightarrow> effect (own (load st1)))"

subsection \<open>Runs of submits\<close>

text \<open>
  A call of a run: the user types \<open>typed\<close> (\<open>setInput\<close>) and sends it. When the call
  auto-creates a session, the new session id makes the effect fetch the session info;
  \<open>effect_env\<close> is what that fetch obtains, and it settles before or after the
  resolver's response.
\<close>

datatype effect_timing = BeforeReply | AfterReply

record 'd Call =
  typed :: string
  call_env :: "'d SendEnv"
  effect_env :: InfoEnv
  effect_timing :: effect_timing

definition submit :: "string option \<Rightarrow> 'd ChatState \<Rightarrow> 'd Call \<Rightarrow> 'd ChatState" where
  "submit workspaceId st call =
     (let st0 = st\<lparr>input := typed call\<rparr>; env = call_env call in
      if blank (input st0) then st0
      else
        (case provision_session workspaceId env (send_started env st0) of
           Inl returned \<Rightarrow> state_after (send_settled env (Inr returned))
         | Inr st1 \<Rightarrow>
             (let effect = (if effect_fetches (sessionId st) st1
                            then info_settled (effect_env call) else (\<lambda>s. s))
              in case effect_timing call of
                   BeforeReply \<Rightarrow> state_after (send_settled env (send_reply env (effect st1)))
                 | AfterReply \<Rightarrow> effect (state_after (send_settled env (send_reply env st1))))))"

text \<open>The calls are made one after the other, each when the previous one has settled.\<close>

fun submit_all :: "string option \<Rightarrow> 'd ChatState \<Rightarrow> 'd Call list \<Rightarrow> 'd ChatState" where
  "submit_all workspaceId st [] = st"
| "submit_all workspaceId st (call # calls) =
     submit_all workspaceId (submit workspaceId st call) calls"

text \<open>The turns that the settlement of a session-info fetch appends.\<close>

definition effect_turns :: "InfoEnv \<Rightarrow> 'd ChatMessage list" where
  "effect_turns env =
     (case fetched_info env of
        Resolved info \<Rightarrow> if info_error info then [session_warning_turn env info] else []
      | Rejected e \<Rightarrow> [])"

text \<open>
  A call is successful when its input is not blank, the session it has to create (if any)
  is created, and the resolver's response arrives and is turned into a message.
\<close>

definition successful :: "string option \<Rightarrow> 'd ChatState \<Rightarrow> 'd Call \<Rightarrow> bool" where
  "successful workspaceId st call =
     (\<not> blank (typed call) \<and>
      (needs_session workspaceId st \<longrightarrow>
         (case created (call_env call) of Resolved _ \<Rightarrow> True | Rejected _ \<Rightarrow> False)) \<and>
      (case executed (call_env call) of
         Rejected _ \<Rightarrow> False
       | Resolved result \<Rightarrow>
           (case botMessage (bot_clock (call_env call)) (draws (call_env call)) result of
              Inl _ \<Rightarrow> False | Inr _ \<Rightarrow> True)))"

fun all_successful :: "string option \<Rightarrow> 'd ChatState \<Rightarrow> 'd Call list \<Rightarrow> bool" where
  "all_successful workspaceId st [] = True"
| "all_successful workspaceId st (call # calls) =
     (successful workspaceId st call \<and>
      all_successful workspaceId (submit workspaceId st call) calls)"

text \<open>
  The number of calls of a run that auto-create a session, and the number of calls whose
  effect appends a warning (the session was created with an id that is set, and the
  session info came flagged as error).
\<close>

definition creates_session :: "string option \<Rightarrow> 'd ChatState \<Rightarrow> 'd Call \<Rightarrow> bool" where
  "creates_session workspaceId st call =
     (\<not> blank (typed call) \<and> needs_session workspaceId st \<and>
      (case created (call_env call) of Resolved _ \<Rightarrow> True | Rejected _ \<Rightarrow> False))"

definition effect_warns :: "string option \<Rightarrow> 'd ChatState \<Rightarrow> 'd Call \<Rightarrow> bool" where
  "effect_warns workspaceId st call =
     (creates_session workspaceId st call \<and>
      (case created (call_env call) of
         Resolved sessionData \<Rightarrow> truthy (sd_id sessionData)
       | Rejected _ \<Rightarrow> False) \<and>
      (case fetched_info (effect_env call) of
         Resolved info \<Rightarrow> info_error info
       | Rejected _ \<Rightarrow> False))"

fun auto_created :: "string option \<Rightarrow> 'd ChatState \<Rightarrow> 'd Call list \<Rightarrow> nat" where
  "auto_created workspaceId st [] = 0"
| "auto_created workspaceId st (call # calls) =
     (if creates_session workspaceId st call then 1 else 0) +
     auto_created workspaceId (submit workspaceId st call) calls"

fun effect_warnings :: "string option \<Rightarrow> 'd ChatState \<Rightarrow> 'd Call list \<Rightarrow> nat" where
  "effect_warnings workspaceId st [] = 0"
| "effect_warnings workspaceId st (call # calls) =
     (if effect_warns workspaceId st call then 1 else 0) +
     effect_warnings workspaceId (submit workspaceId st call) calls"

subsection \<open>Sample data\<close>

text \<open>A transcript with a welcome turn, a turn with one table and a turn with two tables,
  and a page response whose pagination carries a new table id.\<close>

definition sample_page :: "int \<Rightarrow> string \<Rightarrow> PaginationInfo" where
  "sample_page n t =
     \<lparr>pg_table_id = Some t, current_page = n, total_pages = 3, total_rows = 57,
      page_size = 20, has_next = None, has_prev = None\<rparr>"

definition sample_table :: "string \<Rightarrow> nat list \<Rightarrow> nat list TableInfo" where
  "sample_table t rows =
     \<lparr>tbl_name = ''orders'', tbl_description = ''orders by month'', tbl_sql = ''SELECT 1'',
      results = rows, row_count = 57, tbl_table_id = Some t,
      tbl_pagination = Some (sample_page 1 t)\<rparr>"

definition sample_sql_turn :: "nat list ChatMessage" where
  "sample_sql_turn =
     \<lparr>msg_id = ''response-1'', isUser = False, msg_text = ''Here you are'', timestamp = 1,
      query_type = Some ''sql'',
      sqlResult = Some \<lparr>sql = ''SELECT 1'', data = [1, 2], error = None,
                        pagination = Some (sample_page 1 ''t1''), table_id = Some ''t1''\<rparr>,
      analysisResult = None\<rparr>"

definition sample_analysis_turn :: "nat list ChatMessage" where
  "sample_analysis_turn =
     \<lparr>msg_id = ''response-2'', isUser = False, msg_text = ''Compared'', timestamp = 2,
      query_type = Some ''analysis'', sqlResult = None,
      analysisResult =
        Some \<lparr>tables = [sample_table ''t1'' [1, 2], sample_table ''t2'' [3, 4]],
              analysis_type = Some ''comparative''\<rparr>\<rparr>"

definition sample_state :: "nat list ChatState" where
  "sample_state =
     \<lparr>messages = [plain_message ''welcome'' False welcome_text 0, sample_sql_turn,
                  sample_analysis_turn],
      input = [], isProcessing = False, sessionId = Some ''s1'', sessionInfo = None,
      showSessionsList = False, paginationState = None\<rparr>"

definition sample_response :: "nat list PageResponse" where
  "sample_response = \<lparr>resp_data = [5, 6], resp_pagination = Some (sample_page 2 ''t9'')\<rparr>"

definition sample_clock :: clock where
  "sample_clock = \<lparr>date_now = 1700000000000, new_date = 1700000000000\<rparr>"

text \<open>
  What a load and an info fetch obtain, a persisted message whose \<open>query_result\<close> has
  both \<open>sql\<close> and \<open>tables\<close>, a table without \<open>table_id\<close>, a resolver response, and
  what a submit obtains when every draw of a table id gives the same clock reading and
  the same suffix.
\<close>

definition sample_load_env :: "nat list StoredMessage list settled \<Rightarrow> nat list LoadEnv" where
  "sample_load_env fetched =
     \<lparr>fetched_messages = fetched,
      conversions = (\<lambda>i. \<lparr>id_now = 1700000000000, id_random = ''0.25'',
                            ts_now = 1700000000000\<rparr>),
      welcome_date = 1700000000000,
      notice_clock = sample_clock\<rparr>"

definition sample_info_env :: "SessionInfo settled \<Rightarrow> InfoEnv" where
  "sample_info_env fetched = \<lparr>fetched_info = fetched, info_clock = sample_clock\<rparr>"

definition sample_info :: "bool \<Rightarrow> SessionInfo" where
  "sample_info failed = \<lparr>info_error = failed, info_description = ''Session not found''\<rparr>"

definition sample_stored_both :: "nat list StoredMessage" where
  "sample_stored_both =
     \<lparr>stored_id = Some ''m7'', role = ''assistant'', content = ''Compared'',
      created_at = Some 1700000000000,
      query_result =
        Some \<lparr>is_conversational = False, is_multi_query = True, is_why_analysis = False,
              q_sql = Some ''SELECT 1'', q_results = [1, 2], q_error = None,
              q_pagination = Some (sample_page 1 ''t0''),
              q_tables = Some [sample_table ''t1'' [1, 2], sample_table ''t2'' [3, 4]],
              q_analysis_type = Some ''comparative''\<rparr>\<rparr>"

definition sample_untagged :: "nat list \<Rightarrow> nat list TableInfo" where
  "sample_untagged rows =
     \<lparr>tbl_name = ''orders'', tbl_description = ''orders by month'', tbl_sql = ''SELECT 1'',
      results = rows, row_count = 57, tbl_table_id = None, tbl_pagination = None\<rparr>"

definition sample_query_response ::
  "string option \<Rightarrow> nat list TableInfo list \<Rightarrow> nat list QueryResponse" where
  "sample_query_response qt tbls =
     \<lparr>r_text = Some ''Hello there'', r_message = None, r_query_type = qt, r_sql = None,
      r_data = [], r_error = None, r_pagination = None, r_table_id = None,
      r_tables = Some tbls, r_analysis_type = Some ''comparative''\<rparr>"

definition sample_send_env :: "nat list QueryResponse settled \<Rightarrow> nat list SendEnv" where
  "sample_send_env r =
     \<lparr>user_clock = sample_clock,
      created = Resolved \<lparr>sd_id = Some ''s9'', sd_name = ''Chat Session''\<rparr>,
      system_clock = sample_clock, executed = r,
      draws = (\<lambda>i. \<lparr>draw_now = 1700000000000, draw_suffix = ''k3j2h1g''\<rparr>),
      bot_clock = sample_clock\<rparr>"

definition sample_submitted :: "nat list QueryResponse \<Rightarrow> nat list ChatState" where
  "sample_submitted result =
     handleSendMessage None (sample_send_env (Resolved result))
       (sample_state\<lparr>input := ''show revenue by month''\<rparr>)"

text \<open>
  A call of a run, with the flag of the session info that its effect would obtain and
  the moment at which that fetch settles; page twelve; a page response whose pagination
  has an empty \<open>table_id\<close>; and a state whose transcript is the conversion of the
  persisted message above.
\<close>

definition sample_call :: "bool \<Rightarrow> effect_timing \<Rightarrow> nat list Call" where
  "sample_call failed t =
     \<lparr>typed = ''show revenue by month'',
      call_env = sample_send_env (Resolved (sample_query_response None [])),
      effect_env = sample_info_env (Resolved (sample_info failed)),
      effect_timing = t\<rparr>"

definition sample_page_number :: js_number where
  "sample_page_number = Whole (Abs_safe_int 12)"

definition sample_response_empty_id :: "nat list PageResponse" where
  "sample_response_empty_id = \<lparr>resp_data = [5, 6], resp_pagination = Some (sample_page 2 [])\<rparr>"

definition sample_both_state :: "nat list ChatState" where
  "sample_both_state =
     sample_state\<lparr>messages :=
        [convertMessage (conversions (sample_load_env (Resolved [])) 0) sample_stored_both]\<rparr>"

section \<open>Properties\<close>

subsection \<open>Page changes\<close>

lemma update_message_id: "msg_id (update_message result mid tid m) = msg_id m"
  by (simp add: update_message_def)

lemma update_message_other: "msg_id m \<noteq> mid \<Longrightarrow> update_message result mid tid m = m"
  by (simp add: update_message_def)

lemma update_message_no_result:
  "sqlResult m = None \<Longrightarrow> analysisResult m = None \<Longrightarrow> update_message result mid tid m = m"
  by (simp add: update_message_def)

lemma update_table_other:
  "tbl_table_id t \<noteq> Some tid \<Longrightarrow> update_table result tid t = t"
  by (simp add: update_table_def)

lemma update_message_tables:
  assumes "analysisResult m = Some ar"
  shows "\<exists>ar'. analysisResult (update_message result mid tid m) = Some ar' \<and>
           analysis_type ar' = analysis_type ar \<and>
           length (tables ar') = length (tables ar) \<and>
           (\<forall>j < length (tables ar).
              tbl_table_id (tables ar ! j) \<noteq> Some tid \<longrightarrow> tables ar' ! j = tables ar ! j)"
  using assms by (auto simp: update_message_def update_table_other)

lemma currentTableId_given:
  "resp_pagination result = Some p \<Longrightarrow> pg_table_id p = Some t \<Longrightarrow> t \<noteq> [] \<Longrightarrow>
   currentTableId result tid = t"
  by (simp add: currentTableId_def or_else_def)

lemma currentTableId_fallback:
  "resp_pagination result = None \<or>
   (\<exists>p. resp_pagination result = Some p \<and> \<not> truthy (pg_table_id p)) \<Longrightarrow>
   currentTableId result tid = tid"
proof (cases "resp_pagination result")
  case None
  then show ?thesis by (simp add: currentTableId_def or_else_def)
next
  case (Some p)
  assume "resp_pagination result = None \<or>
          (\<exists>p. resp_pagination result = Some p \<and> \<not> truthy (pg_table_id p))"
  with Some have "\<not> truthy (pg_table_id p)" by simp
  with Some show ?thesis
    by (cases "pg_table_id p") (simp_all add: currentTableId_def or_else_def truthy_def)
qed

lemma update_message_sql:
  "msg_id m = mid \<Longrightarrow> sqlResult m = Some sr \<Longrightarrow>
   update_message result mid tid m =
     m\<lparr>sqlResult := Some (sr\<lparr>data := resp_data result, pagination := resp_pagination result,
                             table_id := Some (currentTableId result tid)\<rparr>)\<rparr>"
  by (simp add: update_message_def)

lemma update_message_analysis:
  "msg_id m = mid \<Longrightarrow> sqlResult m = None \<Longrightarrow> analysisResult m = Some ar \<Longrightarrow>
   update_message result mid tid m =
     m\<lparr>analysisResult := Some (ar\<lparr>tables := map (update_table result tid) (tables ar)\<rparr>)\<rparr>"
  by (simp add: update_message_def)

lemma update_table_hit:
  "tbl_table_id t = Some tid \<Longrightarrow>
   update_table result tid t =
     t\<lparr>results := resp_data result, tbl_pagination := resp_pagination result,
       tbl_table_id := Some (currentTableId result tid)\<rparr>"
  by (simp add: update_table_def)

lemma handlePageChange_resolved:
  "truthy (sessionId st) \<Longrightarrow> tid \<noteq> [] \<Longrightarrow>
   messages (handlePageChange mid tid newPage (Resolved result) c st) =
     map (update_message result mid tid) (messages st)"
  by (simp add: handlePageChange_def)

text \<open>Decimal rendering: digits only, injective, no leading zero, and read back exactly.\<close>

lemma digit_in: "n < 10 \<Longrightarrow> digit n \<in> set ''0123456789''"
  unfolding digit_def by (rule nth_mem) simp

lemma digit_inj: "m < 10 \<Longrightarrow> n < 10 \<Longrightarrow> digit m = digit n \<Longrightarrow> m = n"
proof -
  assume m: "m < 10" and n: "n < 10" and eq: "digit m = digit n"
  have d: "distinct ''0123456789''" by simp
  have "m < length ''0123456789''" "n < length ''0123456789''" using m n by simp_all
  with d eq show "m = n" unfolding digit_def by (simp only: nth_eq_iff_index_eq)
qed

lemma digit_value_digit: "n < 10 \<Longrightarrow> digit_value (digit n) = n"
proof -
  assume "n < 10"
  then have "n \<in> {0, 1, 2, 3, 4, 5, 6, 7, 8, 9}"
    by auto
  then show ?thesis
    by (auto simp: digit_def digit_value_def)
qed

lemma dec_small: "n < 10 \<Longrightarrow> dec n = [digit n]"
  by (subst dec.simps) simp

lemma dec_large: "\<not> n < 10 \<Longrightarrow> dec n = dec (n div 10) @ [digit (n mod 10)]"
  by (subst dec.simps) simp

lemma dec_digits: "set (dec n) \<subseteq> set ''0123456789''"
proof (induction n rule: dec.induct)
  case (1 n)
  show ?case
  proof (cases "n < 10")
    case True
    then show ?thesis using digit_in[of n] by (simp add: dec_small)
  next
    case False
    have "n mod 10 < 10" by simp
    with False 1 digit_in[of "n mod 10"] show ?thesis by (simp add: dec_large)
  qed
qed

lemma dec_not_empty: "dec n \<noteq> []"
  by (subst dec.simps) simp

lemma read_dec_snoc: "read_dec (s @ [c]) = 10 * read_dec s + digit_value c"
  by (simp add: read_dec_def)

lemma read_dec_dec: "read_dec (dec n) = n"
proof (induction n rule: dec.induct)
  case (1 n)
  show ?case
  proof (cases "n < 10")
    case True
    then show ?thesis by (simp add: dec_small read_dec_def digit_value_digit)
  next
    case False
    have "n mod 10 < 10" by simp
    then have "digit_value (digit (n mod 10)) = n mod 10" by (rule digit_value_digit)
    with False 1 show ?thesis by (simp add: dec_large read_dec_snoc)
  qed
qed

lemma dec_inj: "dec m = dec n \<Longrightarrow> m = n"
  by (metis read_dec_dec)

lemma dec_leading_zero: "hd (dec n) = CHR ''0'' \<Longrightarrow> n = 0"
proof (induction n rule: dec.induct)
  case (1 n)
  show ?case
  proof (cases "n < 10")
    case True
    with "1.prems" have "digit n = digit 0" by (simp add: dec_small digit_def)
    with True show ?thesis using digit_inj[of n 0] by simp
  next
    case False
    with "1.prems" have "hd (dec (n div 10)) = CHR ''0''"
      by (simp add: dec_large dec_not_empty)
    with False "1.IH" have "n div 10 = 0" by simp
    with False show ?thesis by simp
  qed
qed

lemma dec_zero: "dec 0 = ''0''"
  by (simp add: dec_small digit_def)

lemma dash_not_in_dec: "CHR ''-'' \<notin> set (dec n)"
  using dec_digits[of n] by auto

lemma read_int_show_int: "read_int (show_int i) = i"
proof (cases "i < 0")
  case True
  then show ?thesis by (simp add: show_int_def read_int_def read_dec_dec)
next
  case False
  obtain c r where cr: "dec (nat i) = c # r"
    using dec_not_empty[of "nat i"] by (cases "dec (nat i)") auto
  have "c \<noteq> CHR ''-''"
    using dash_not_in_dec[of "nat i"] cr by auto
  with False cr show ?thesis
    using read_dec_dec[of "nat i"] by (simp add: show_int_def read_int_def)
qed

lemma sample_page_number_printed: "template_number sample_page_number = ''12''"
proof -
  have "Rep_safe_int (Abs_safe_int 12) = 12"
    by (rule Abs_safe_int_inverse) simp
  then show ?thesis
    by (simp add: template_number_def sample_page_number_def show_int_def dec.simps digit_def)
qed

text \<open>
  C1. A page change leaves every turn with another id as it is, and in every turn that
  holds an analysis result it leaves every table whose \<open>table_id\<close> differs from the
  requested one as it is (turn \<open>i\<close>, table \<open>j\<close>).
\<close>

theorem sibling_tables_unchanged:
  assumes "st' = handlePageChange mid tid newPage response c st"
      and "i < length (messages st)"
      and "m = messages st ! i" and "m' = messages st' ! i"
  shows "(msg_id m \<noteq> mid \<longrightarrow> m' = m) \<and>
         (\<forall>ar. analysisResult m = Some ar \<longrightarrow>
            (\<exists>ar'. analysisResult m' = Some ar' \<and>
               length (tables ar') = length (tables ar) \<and>
               (\<forall>j < length (tables ar).
                  tbl_table_id (tables ar ! j) \<noteq> Some tid \<longrightarrow> tables ar' ! j = tables ar ! j)))"
proof (cases "\<not> truthy (sessionId st) \<or> tid = []")
  case True
  with assms show ?thesis by (simp add: handlePageChange_def)
next
  case guard: False
  show ?thesis
  proof (cases response)
    case (Rejected e)
    with guard assms show ?thesis by (simp add: handlePageChange_def nth_append)
  next
    case (Resolved result)
    with guard assms have m': "m' = update_message result mid tid m"
      by (simp add: handlePageChange_def)
    show ?thesis
      using update_message_other[of m mid result tid] update_message_tables[of m _ result mid tid]
      unfolding m' by blast
  qed
qed

theorem sibling_tables_unchanged_witness:
  "\<exists>ar'. analysisResult
           (messages (handlePageChange ''response-2'' ''t1'' sample_page_number (Resolved sample_response)
              sample_clock sample_state) ! 2) = Some ar' \<and>
         tables ar' ! 1 = sample_table ''t2'' [3, 4]"
proof -
  let ?ar = "\<lparr>tables = [sample_table ''t1'' [1, 2], sample_table ''t2'' [3, 4]],
              analysis_type = Some ''comparative''\<rparr>"
  have len: "2 < length (messages sample_state)"
    by (simp add: sample_state_def)
  have m: "sample_analysis_turn = messages sample_state ! 2"
    by (simp add: sample_state_def)
  have ar: "analysisResult sample_analysis_turn = Some ?ar"
    by (simp add: sample_analysis_turn_def)
  have other: "tbl_table_id (tables ?ar ! 1) \<noteq> Some ''t1''"
    by (simp add: sample_table_def)
  from sibling_tables_unchanged[where mid = "''response-2''" and tid = "''t1''" and newPage = sample_page_number
         and response = "Resolved sample_response" and c = sample_clock,
         OF refl len m refl] ar other
  show ?thesis
    by auto
qed

text \<open>
  C5 (as amended). After a successful page change the transcript has the same length and
  the same ids in the same order, so no turn is appended. A turn with the requested id
  that holds a sql result has that result's \<open>data\<close>, \<open>pagination\<close> and \<open>table_id\<close>
  replaced by the response's data, its pagination and the current table id; in a turn
  with the requested id that holds an analysis result and no sql result the same happens
  to the tables with the requested table id. The current table id is the response's
  \<open>pagination.table_id\<close> when that is a non-empty string, and the caller's \<open>tableId\<close>
  when the response has no pagination or its pagination has no such id or an empty one.
\<close>

theorem page_change_replaces_in_place:
  assumes "truthy (sessionId st)" and "tid \<noteq> []"
      and "st' = handlePageChange mid tid newPage (Resolved result) c st"
      and "cur = currentTableId result tid"
  shows "length (messages st') = length (messages st) \<and>
         (\<forall>i < length (messages st). msg_id (messages st' ! i) = msg_id (messages st ! i)) \<and>
         (\<forall>i < length (messages st). \<forall>sr.
            msg_id (messages st ! i) = mid \<and> sqlResult (messages st ! i) = Some sr \<longrightarrow>
            messages st' ! i =
              (messages st ! i)\<lparr>sqlResult :=
                 Some (sr\<lparr>data := resp_data result, pagination := resp_pagination result,
                          table_id := Some cur\<rparr>)\<rparr>) \<and>
         (\<forall>i < length (messages st). \<forall>ar.
            msg_id (messages st ! i) = mid \<and> sqlResult (messages st ! i) = None \<and>
            analysisResult (messages st ! i) = Some ar \<longrightarrow>
            (\<exists>ar'. messages st' ! i = (messages st ! i)\<lparr>analysisResult := Some ar'\<rparr> \<and>
               analysis_type ar' = analysis_type ar \<and>
               length (tables ar') = length (tables ar) \<and>
               (\<forall>j < length (tables ar). tbl_table_id (tables ar ! j) = Some tid \<longrightarrow>
                  tables ar' ! j =
                    (tables ar ! j)\<lparr>results := resp_data result,
                                     tbl_pagination := resp_pagination result,
                                     tbl_table_id := Some cur\<rparr>))) \<and>
         (\<forall>p t. resp_pagination result = Some p \<and> pg_table_id p = Some t \<and> t \<noteq> [] \<longrightarrow>
            cur = t) \<and>
         (resp_pagination result = None \<or>
          (\<exists>p. resp_pagination result = Some p \<and> \<not> truthy (pg_table_id p)) \<longrightarrow> cur = tid)"
proof -
  have msgs: "messages st' = map (update_message result mid tid) (messages st)"
    using assms by (simp add: handlePageChange_resolved)
  have a: "length (messages st') = length (messages st)"
    by (simp add: msgs)
  have b: "\<forall>i < length (messages st). msg_id (messages st' ! i) = msg_id (messages st ! i)"
    by (simp add: msgs update_message_id)
  have c: "\<forall>i < length (messages st). \<forall>sr.
            msg_id (messages st ! i) = mid \<and> sqlResult (messages st ! i) = Some sr \<longrightarrow>
            messages st' ! i =
              (messages st ! i)\<lparr>sqlResult :=
                 Some (sr\<lparr>data := resp_data result, pagination := resp_pagination result,
                          table_id := Some cur\<rparr>)\<rparr>"
    by (simp add: msgs update_message_sql assms(4))
  have d: "\<forall>i < length (messages st). \<forall>ar.
            msg_id (messages st ! i) = mid \<and> sqlResult (messages st ! i) = None \<and>
            analysisResult (messages st ! i) = Some ar \<longrightarrow>
            (\<exists>ar'. messages st' ! i = (messages st ! i)\<lparr>analysisResult := Some ar'\<rparr> \<and>
               analysis_type ar' = analysis_type ar \<and>
               length (tables ar') = length (tables ar) \<and>
               (\<forall>j < length (tables ar). tbl_table_id (tables ar ! j) = Some tid \<longrightarrow>
                  tables ar' ! j =
                    (tables ar ! j)\<lparr>results := resp_data result,
                                     tbl_pagination := resp_pagination result,
                                     tbl_table_id := Some cur\<rparr>))"
  proof (intro allI impI)
    fix i ar
    assume i: "i < length (messages st)"
       and h: "msg_id (messages st ! i) = mid \<and> sqlResult (messages st ! i) = None \<and>
               analysisResult (messages st ! i) = Some ar"
    let ?ar' = "ar\<lparr>tables := map (update_table result tid) (tables ar)\<rparr>"
    have "messages st' ! i = (messages st ! i)\<lparr>analysisResult := Some ?ar'\<rparr>"
      using i h by (simp add: msgs update_message_analysis)
    moreover have "\<forall>j < length (tables ar). tbl_table_id (tables ar ! j) = Some tid \<longrightarrow>
                  tables ?ar' ! j =
                    (tables ar ! j)\<lparr>results := resp_data result,
                                     tbl_pagination := resp_pagination result,
                                     tbl_table_id := Some cur\<rparr>"
      by (simp add: update_table_hit assms(4))
    ultimately show "\<exists>ar'. messages st' ! i = (messages st ! i)\<lparr>analysisResult := Some ar'\<rparr> \<and>
               analysis_type ar' = analysis_type ar \<and>
               length (tables ar') = length (tables ar) \<and>
               (\<forall>j < length (tables ar). tbl_table_id (tables ar ! j) = Some tid \<longrightarrow>
                  tables ar' ! j =
                    (tables ar ! j)\<lparr>results := resp_data result,
                                     tbl_pagination := resp_pagination result,
                                     tbl_table_id := Some cur\<rparr>)"
      by (intro exI[where x = ?ar']) simp
  qed
  have e: "\<forall>p t. resp_pagination result = Some p \<and> pg_table_id p = Some t \<and> t \<noteq> [] \<longrightarrow> cur = t"
    by (simp add: assms(4) currentTableId_given)
  have f: "resp_pagination result = None \<or>
           (\<exists>p. resp_pagination result = Some p \<and> \<not> truthy (pg_table_id p)) \<longrightarrow> cur = tid"
    unfolding assms(4) by (rule impI) (rule currentTableId_fallback)
  show ?thesis by (intro conjI a b c d e f)
qed

theorem page_change_replaces_in_place_witness:
  "length (messages (handlePageChange ''response-1'' ''t1'' sample_page_number (Resolved sample_response)
             sample_clock sample_state)) = 3 \<and>
   sqlResult (messages (handlePageChange ''response-1'' ''t1'' sample_page_number (Resolved sample_response)
             sample_clock sample_state) ! 1) =
     Some \<lparr>sql = ''SELECT 1'', data = [5, 6], error = None,
           pagination = Some (sample_page 2 ''t9''), table_id = Some ''t9''\<rparr>"
proof -
  have sess: "truthy (sessionId sample_state)"
    by (simp add: sample_state_def truthy_def)
  have tid: "''t1'' \<noteq> []" by simp
  have len: "1 < length (messages sample_state)"
    by (simp add: sample_state_def)
  have turn: "msg_id (messages sample_state ! 1) = ''response-1'' \<and>
              sqlResult (messages sample_state ! 1) =
                Some \<lparr>sql = ''SELECT 1'', data = [1, 2], error = None,
                      pagination = Some (sample_page 1 ''t1''), table_id = Some ''t1''\<rparr>"
    by (simp add: sample_state_def sample_sql_turn_def)
  have given: "resp_pagination sample_response = Some (sample_page 2 ''t9'') \<and>
               pg_table_id (sample_page 2 ''t9'') = Some ''t9'' \<and> ''t9'' \<noteq> []"
    by (simp add: sample_response_def sample_page_def)
  note T = page_change_replaces_in_place[where mid = "''response-1''" and newPage = sample_page_number
             and c = sample_clock, OF sess tid refl refl, of sample_response]
  from T given have cur: "currentTableId sample_response ''t1'' = ''t9''"
    by blast
  from T len turn have
    "messages (handlePageChange ''response-1'' ''t1'' sample_page_number (Resolved sample_response)
       sample_clock sample_state) ! 1 =
     (messages sample_state ! 1)\<lparr>sqlResult :=
        Some (\<lparr>sql = ''SELECT 1'', data = [1, 2], error = None,
               pagination = Some (sample_page 1 ''t1''), table_id = Some ''t1''\<rparr>
              \<lparr>data := resp_data sample_response,
               pagination := resp_pagination sample_response,
               table_id := Some (currentTableId sample_response ''t1'')\<rparr>)\<rparr>"
    by blast
  with cur have "sqlResult (messages (handlePageChange ''response-1'' ''t1'' sample_page_number
       (Resolved sample_response) sample_clock sample_state) ! 1) =
     Some \<lparr>sql = ''SELECT 1'', data = [5, 6], error = None,
           pagination = Some (sample_page 2 ''t9''), table_id = Some ''t9''\<rparr>"
    by (simp add: sample_response_def)
  moreover from T have "length (messages (handlePageChange ''response-1'' ''t1'' sample_page_number
       (Resolved sample_response) sample_clock sample_state)) = 3"
    by (simp add: sample_state_def)
  ultimately show ?thesis by simp
qed

text \<open>
  A response whose pagination carries an empty \<open>table_id\<close>: the stored id stays the
  caller's. And a turn that holds both results: a page change for its table \<open>t1\<close>
  leaves that table as it was.
\<close>

theorem page_change_table_id_exceptions:
  "pg_table_id (the (resp_pagination sample_response_empty_id)) = Some [] \<and>
   table_id (the (sqlResult (messages (handlePageChange ''response-1'' ''t1'' sample_page_number
      (Resolved sample_response_empty_id) sample_clock sample_state) ! 1))) = Some ''t1'' \<and>
   tables (the (analysisResult (messages (handlePageChange ''m7'' ''t1'' sample_page_number
      (Resolved sample_response) sample_clock sample_both_state) ! 0))) ! 0 =
     sample_table ''t1'' [1, 2]"
proof -
  have a: "pg_table_id (the (resp_pagination sample_response_empty_id)) = Some []"
    by (simp add: sample_response_empty_id_def sample_page_def)
  have "messages (handlePageChange ''response-1'' ''t1'' sample_page_number
          (Resolved sample_response_empty_id) sample_clock sample_state) ! 1 =
        update_message sample_response_empty_id ''response-1'' ''t1'' sample_sql_turn"
    by (simp add: handlePageChange_def sample_state_def truthy_def)
  then have b: "table_id (the (sqlResult (messages (handlePageChange ''response-1'' ''t1''
      sample_page_number (Resolved sample_response_empty_id) sample_clock sample_state) ! 1))) =
      Some ''t1''"
    by (simp add: update_message_def sample_sql_turn_def currentTableId_def or_else_def
          sample_response_empty_id_def sample_page_def)
  have "messages (handlePageChange ''m7'' ''t1'' sample_page_number
          (Resolved sample_response) sample_clock sample_both_state) ! 0 =
        update_message sample_response ''m7'' ''t1''
          (convertMessage (conversions (sample_load_env (Resolved [])) 0) sample_stored_both)"
    by (simp add: handlePageChange_def sample_both_state_def sample_state_def truthy_def)
  then have c: "tables (the (analysisResult (messages (handlePageChange ''m7'' ''t1''
      sample_page_number (Resolved sample_response) sample_clock sample_both_state) ! 0))) ! 0 =
      sample_table ''t1'' [1, 2]"
    by (simp add: update_message_def convertMessage_def sample_stored_both_def truthy_def
          or_else_def)
  from a b c show ?thesis by (intro conjI)
qed

text \<open>
  C7. A failed page change appends exactly one assistant turn and leaves every turn that
  was there as it was. The text of the new turn is \<open>Error loading page\<close>, the requested
  page as printed, a colon, and the message of the error (\<open>Unknown error\<close> when the thrown
  value is not an \<open>Error\<close>). For a page that is an integer the printed text is its
  decimal numeral: digits only, without a leading zero, after a minus sign when the page
  is negative, and it reads back as the page; for any other number it is that number's
  text.
\<close>

theorem failed_page_change_keeps_data:
  assumes "truthy (sessionId st)" and "tid \<noteq> []"
      and "st' = handlePageChange mid tid newPage (Rejected e) c st"
  shows "\<exists>turn printed.
           messages st' = messages st @ [turn] \<and>
           isUser turn = False \<and> sqlResult turn = None \<and> analysisResult turn = None \<and>
           msg_text turn =
             ''Error loading page '' @ printed @ '': '' @
               (case e of JsError m \<Rightarrow> m | NonError _ \<Rightarrow> ''Unknown error''
                | Nullish _ \<Rightarrow> ''Unknown error'') \<and>
           (\<forall>i. newPage = Whole i \<longrightarrow>
              read_int printed = Rep_safe_int i \<and>
              (\<exists>numeral. printed = (if Rep_safe_int i < 0 then ''-'' else []) @ numeral \<and>
                 numeral \<noteq> [] \<and> set numeral \<subseteq> set ''0123456789'' \<and>
                 (hd numeral = CHR ''0'' \<longrightarrow> numeral = ''0'') \<and>
                 int (read_dec numeral) = \<bar>Rep_safe_int i\<bar>)) \<and>
           (\<forall>s. newPage = Other s \<longrightarrow> printed = s) \<and>
           (\<forall>i < length (messages st). messages st' ! i = messages st ! i)"
proof -
  let ?turn = "pagination_error_message c newPage e :: 'a ChatMessage"
  let ?printed = "template_number newPage"
  have msgs: "messages st' = messages st @ [?turn]"
    using assms by (simp add: handlePageChange_def)
  have plain: "isUser ?turn = False \<and> sqlResult ?turn = None \<and> analysisResult ?turn = None"
    by (simp add: pagination_error_message_def plain_message_def)
  have shown: "msg_text ?turn =
             ''Error loading page '' @ ?printed @ '': '' @
               (case e of JsError m \<Rightarrow> m | NonError _ \<Rightarrow> ''Unknown error''
                | Nullish _ \<Rightarrow> ''Unknown error'')"
    by (simp add: pagination_error_message_def plain_message_def)
  have whole: "\<forall>i. newPage = Whole i \<longrightarrow>
              read_int ?printed = Rep_safe_int i \<and>
              (\<exists>numeral. ?printed = (if Rep_safe_int i < 0 then ''-'' else []) @ numeral \<and>
                 numeral \<noteq> [] \<and> set numeral \<subseteq> set ''0123456789'' \<and>
                 (hd numeral = CHR ''0'' \<longrightarrow> numeral = ''0'') \<and>
                 int (read_dec numeral) = \<bar>Rep_safe_int i\<bar>)"
  proof (intro allI impI conjI)
    fix i assume w: "newPage = Whole i"
    then have p: "?printed = show_int (Rep_safe_int i)"
      by (simp add: template_number_def)
    show "read_int ?printed = Rep_safe_int i"
      by (simp add: p read_int_show_int)
    let ?n = "nat \<bar>Rep_safe_int i\<bar>"
    have a: "?printed = (if Rep_safe_int i < 0 then ''-'' else []) @ dec ?n"
      by (simp add: p show_int_def)
    have b: "hd (dec ?n) = CHR ''0'' \<longrightarrow> dec ?n = ''0''"
      using dec_leading_zero[of ?n] dec_zero by auto
    have d: "int (read_dec (dec ?n)) = \<bar>Rep_safe_int i\<bar>"
      by (simp add: read_dec_dec)
    show "\<exists>numeral. ?printed = (if Rep_safe_int i < 0 then ''-'' else []) @ numeral \<and>
                 numeral \<noteq> [] \<and> set numeral \<subseteq> set ''0123456789'' \<and>
                 (hd numeral = CHR ''0'' \<longrightarrow> numeral = ''0'') \<and>
                 int (read_dec numeral) = \<bar>Rep_safe_int i\<bar>"
      by (intro exI[where x = "dec ?n"] conjI a dec_not_empty dec_digits b d)
  qed
  have other: "\<forall>s. newPage = Other s \<longrightarrow> ?printed = s"
    by (simp add: template_number_def)
  have old: "\<forall>i < length (messages st). messages st' ! i = messages st ! i"
    by (simp add: msgs nth_append)
  show ?thesis
    using plain
    by (intro exI[where x = ?turn] exI[where x = ?printed] conjI msgs shown whole other old) simp_all
qed

theorem failed_page_change_keeps_data_witness:
  "\<exists>turn printed.
     messages (handlePageChange ''response-1'' ''t1'' sample_page_number
        (Rejected (JsError ''Network Error'')) sample_clock sample_state) =
        messages sample_state @ [turn] \<and>
     msg_text turn = ''Error loading page '' @ printed @ '': Network Error'' \<and>
     read_int printed = 12 \<and>
     messages (handlePageChange ''response-1'' ''t1'' sample_page_number
        (Rejected (JsError ''Network Error'')) sample_clock sample_state) ! 1 =
        sample_sql_turn"
proof -
  have sess: "truthy (sessionId sample_state)"
    by (simp add: sample_state_def truthy_def)
  have tid: "''t1'' \<noteq> []" by simp
  have len: "1 < length (messages sample_state)"
    by (simp add: sample_state_def)
  have at1: "messages sample_state ! 1 = sample_sql_turn"
    by (simp add: sample_state_def)
  have page: "sample_page_number = Whole (Abs_safe_int 12)"
    by (simp add: sample_page_number_def)
  have rep: "Rep_safe_int (Abs_safe_int 12) = 12"
    by (rule Abs_safe_int_inverse) simp
  from failed_page_change_keeps_data[where mid = "''response-1''" and newPage = sample_page_number
         and c = sample_clock and e = "JsError ''Network Error''", OF sess tid refl]
  obtain turn printed where
    t: "messages (handlePageChange ''response-1'' ''t1'' sample_page_number
          (Rejected (JsError ''Network Error'')) sample_clock sample_state) =
        messages sample_state @ [turn]"
       "msg_text turn = ''Error loading page '' @ printed @ '': '' @ ''Network Error''"
    and w: "\<forall>i. sample_page_number = Whole i \<longrightarrow> read_int printed = Rep_safe_int i"
    and old: "\<forall>i < length (messages sample_state).
                messages (handlePageChange ''response-1'' ''t1'' sample_page_number
                  (Rejected (JsError ''Network Error'')) sample_clock sample_state) ! i =
                messages sample_state ! i"
    by (elim exE conjE) simp
  from w page rep have r: "read_int printed = 12" by simp
  from old len at1
  have o: "messages (handlePageChange ''response-1'' ''t1'' sample_page_number
             (Rejected (JsError ''Network Error'')) sample_clock sample_state) ! 1 =
           sample_sql_turn"
    by simp
  from t(2) have t2: "msg_text turn = ''Error loading page '' @ printed @ '': Network Error''"
    by simp
  show ?thesis
    by (intro exI[where x = turn] exI[where x = printed] conjI t(1) t2 r o)
qed

text \<open>
  C10. A page change never gives a turn a result it did not have: a missing sql result
  stays missing, a missing analysis result stays missing, a turn with neither is
  unchanged, and the transcript is unchanged when every turn with the requested id has
  neither.
\<close>

theorem page_change_adds_no_result:
  assumes "st' = handlePageChange mid tid newPage (Resolved result) c st"
  shows "length (messages st') = length (messages st) \<and>
         (\<forall>i < length (messages st).
            (sqlResult (messages st ! i) = None \<longrightarrow> sqlResult (messages st' ! i) = None) \<and>
            (analysisResult (messages st ! i) = None \<longrightarrow>
               analysisResult (messages st' ! i) = None) \<and>
            (sqlResult (messages st ! i) = None \<and> analysisResult (messages st ! i) = None \<longrightarrow>
               messages st' ! i = messages st ! i)) \<and>
         ((\<forall>m \<in> set (messages st).
             msg_id m = mid \<longrightarrow> sqlResult m = None \<and> analysisResult m = None) \<longrightarrow>
          messages st' = messages st)"
proof (cases "\<not> truthy (sessionId st) \<or> tid = []")
  case True
  with assms show ?thesis by (simp add: handlePageChange_def)
next
  case False
  then have msgs: "messages st' = map (update_message result mid tid) (messages st)"
    using assms by (simp add: handlePageChange_resolved)
  have keep: "\<And>m. (sqlResult m = None \<longrightarrow> sqlResult (update_message result mid tid m) = None) \<and>
            (analysisResult m = None \<longrightarrow> analysisResult (update_message result mid tid m) = None)"
    by (simp add: update_message_def)
  have same: "(\<forall>m \<in> set (messages st).
             msg_id m = mid \<longrightarrow> sqlResult m = None \<and> analysisResult m = None) \<longrightarrow>
          map (update_message result mid tid) (messages st) = messages st"
    by (auto simp: map_idI update_message_def)
  show ?thesis
    using keep same by (simp add: msgs update_message_no_result)
qed

theorem page_change_adds_no_result_witness:
  "messages (handlePageChange ''welcome'' ''t1'' sample_page_number (Resolved sample_response) sample_clock
      sample_state) = messages sample_state"
proof -
  have "\<forall>m \<in> set (messages sample_state).
          msg_id m = ''welcome'' \<longrightarrow> sqlResult m = None \<and> analysisResult m = None"
    by (simp add: sample_state_def sample_sql_turn_def sample_analysis_turn_def plain_message_def)
  with page_change_adds_no_result[where mid = "''welcome''" and tid = "''t1''" and newPage = sample_page_number
         and result = sample_response and c = sample_clock and st = sample_state, OF refl]
  show ?thesis by blast
qed

subsection \<open>Submitting an utterance\<close>

lemma needs_session_frame [simp]:
  "needs_session ws (st\<lparr>messages := ms, input := inp, isProcessing := b\<rparr>) = needs_session ws st"
  by (simp add: needs_session_def)

lemma needs_session_input [simp]: "needs_session ws (st\<lparr>input := inp\<rparr>) = needs_session ws st"
  by (simp add: needs_session_def)

lemma needs_session_started [simp]:
  "needs_session ws (send_started env st) = needs_session ws st"
  by (simp add: needs_session_def send_started_def)

lemmas send_defs = handleSendMessage_def handleSendMessage_outcome_def send_settled_def
  send_try_def provision_session_def send_reply_def send_started_def state_after_def

lemma handleSendMessage_reply:
  assumes "\<not> blank (input st)" and "\<not> needs_session ws st"
      and "executed env = Resolved result"
      and "botMessage (bot_clock env) (draws env) result = Inr reply"
  shows "handleSendMessage ws env st =
           st\<lparr>messages := messages st @ [user_turn env (input st), reply], input := [],
              isProcessing := False\<rparr>"
  using assms
  by (simp add: send_defs)

lemma handleSendMessage_created_reply:
  assumes "\<not> blank (input st)" and "needs_session ws st"
      and "created env = Resolved sessionData"
      and "executed env = Resolved result"
      and "botMessage (bot_clock env) (draws env) result = Inr reply"
  shows "handleSendMessage ws env st =
           st\<lparr>messages := messages st @
                  [user_turn env (input st), created_turn env sessionData, reply],
              input := [], isProcessing := False, sessionId := sd_id sessionData\<rparr>"
  using assms
  by (simp add: send_defs)

lemma last_reply:
  assumes "\<not> blank (input st)"
      and "needs_session ws st \<longrightarrow> created env = Resolved sessionData"
      and "executed env = Resolved result"
      and "botMessage (bot_clock env) (draws env) result = Inr reply"
  shows "last (messages (handleSendMessage ws env st)) = reply"
proof (cases "needs_session ws st")
  case True
  with assms(2) have "created env = Resolved sessionData" by simp
  from handleSendMessage_created_reply[OF assms(1) True this assms(3,4)]
  show ?thesis by simp
next
  case False
  from handleSendMessage_reply[OF assms(1) False assms(3,4)]
  show ?thesis by simp
qed

lemma botMessage_plain:
  assumes "r_query_type result \<noteq> Some ''sql''" and "r_query_type result \<noteq> Some ''analysis''"
  shows "botMessage c ds result =
           Inr ((plain_message (''response-'' @ dec (date_now c)) False
                   (or_else (r_text result)
                      (or_else (r_message result) ''Query executed successfully.''))
                   (new_date c))\<lparr>query_type := r_query_type result\<rparr>)"
  using assms by (simp add: botMessage_def Let_def)

lemma botMessage_analysis:
  assumes "r_query_type result = Some ''analysis''" and "r_tables result = Some tbls"
  shows "botMessage c ds result =
           Inr ((plain_message (''response-'' @ dec (date_now c)) False
                   (or_else (r_text result)
                      (or_else (r_message result) ''Query executed successfully.''))
                   (new_date c))
                \<lparr>query_type := r_query_type result,
                 analysisResult := Some \<lparr>tables = tablesWithIds ds tbls,
                                         analysis_type = r_analysis_type result\<rparr>\<rparr>)"
  using assms by (simp add: botMessage_def Let_def)

lemma botMessage_not_user: "botMessage c ds result = Inr reply \<Longrightarrow> \<not> isUser reply"
  by (auto simp: botMessage_def Let_def plain_message_def split: if_splits option.splits)

lemma botMessage_one_result:
  "botMessage c ds result = Inr reply \<Longrightarrow> sqlResult reply = None \<or> analysisResult reply = None"
  by (auto simp: botMessage_def Let_def plain_message_def split: if_splits option.splits)

lemma sample_input_not_blank: "\<not> blank ''show revenue by month''"
  by (simp add: blank.simps ws1_def ws2_def ws3_def)

lemma dec_sample: "dec 1700000000000 = ''1700000000000''"
  by (simp add: dec.simps digit_def)

lemma sample_submitted_messages:
  assumes "botMessage sample_clock (draws (sample_send_env (Resolved result))) result = Inr reply"
  shows "last (messages (sample_submitted result)) = reply"
proof -
  have a: "\<not> blank (input (sample_state\<lparr>input := ''show revenue by month''\<rparr>))"
    by (simp add: sample_input_not_blank)
  have b: "needs_session None (sample_state\<lparr>input := ''show revenue by month''\<rparr>) \<longrightarrow>
           created (sample_send_env (Resolved result)) =
             Resolved \<lparr>sd_id = Some ''s9'', sd_name = ''Chat Session''\<rparr>"
    by (simp add: sample_send_env_def)
  have c: "executed (sample_send_env (Resolved result)) = Resolved result"
    by (simp add: sample_send_env_def)
  have d: "botMessage (bot_clock (sample_send_env (Resolved result)))
             (draws (sample_send_env (Resolved result))) result = Inr reply"
    using assms by (simp add: sample_send_env_def)
  from last_reply[OF a b c d] show ?thesis
    by (simp add: sample_submitted_def)
qed

text \<open>
  C8 (as amended). When the response's \<open>query_type\<close> is neither \<open>sql\<close> nor \<open>analysis\<close>,
  the assistant turn carries neither result and is rendered without tables; its text is
  the response's \<open>text\<close>, else its \<open>message\<close>, else a fixed sentence. Its \<open>query_type\<close> is
  stored as received, so the turn is flagged conversational only when the response said
  \<open>conversational\<close>: a missing or unknown discriminant stays missing or unknown.
\<close>

theorem unknown_query_type_plain_text:
  assumes "\<not> blank (input st)"
      and "needs_session ws st \<longrightarrow> created env = Resolved sessionData"
      and "executed env = Resolved result"
      and "r_query_type result \<noteq> Some ''sql''" and "r_query_type result \<noteq> Some ''analysis''"
      and "turn = last (messages (handleSendMessage ws env st))"
  shows "sqlResult turn = None \<and> analysisResult turn = None \<and> \<not> isUser turn \<and>
         msg_text turn =
           or_else (r_text result) (or_else (r_message result) ''Query executed successfully.'') \<and>
         query_type turn = r_query_type result \<and>
         (isConversational turn \<longleftrightarrow> r_query_type result = Some ''conversational'') \<and>
         \<not> renders_sql turn \<and> \<not> renders_analysis turn"
proof -
  let ?reply = "(plain_message (''response-'' @ dec (date_now (bot_clock env))) False
                   (or_else (r_text result)
                      (or_else (r_message result) ''Query executed successfully.''))
                   (new_date (bot_clock env)))\<lparr>query_type := r_query_type result\<rparr>"
  have bm: "botMessage (bot_clock env) (draws env) result = Inr ?reply"
    using assms(4,5) by (rule botMessage_plain)
  have "turn = ?reply"
    using last_reply[OF assms(1,2,3) bm] assms(6) by simp
  then show ?thesis
    using assms(4,5)
    by (simp add: plain_message_def isConversational_def renders_sql_def renders_analysis_def)
qed

theorem unknown_query_type_plain_text_witness:
  "msg_text (last (messages (sample_submitted (sample_query_response (Some ''chart'') [])))) =
     ''Hello there'' \<and>
   query_type (last (messages (sample_submitted (sample_query_response (Some ''chart'') [])))) =
     Some ''chart'' \<and>
   \<not> isConversational (last (messages (sample_submitted (sample_query_response (Some ''chart'') []))))"
proof -
  let ?r = "sample_query_response (Some ''chart'') []"
  have a: "\<not> blank (input (sample_state\<lparr>input := ''show revenue by month''\<rparr>))"
    by (simp add: sample_input_not_blank)
  have b: "needs_session None (sample_state\<lparr>input := ''show revenue by month''\<rparr>) \<longrightarrow>
           created (sample_send_env (Resolved ?r)) =
             Resolved \<lparr>sd_id = Some ''s9'', sd_name = ''Chat Session''\<rparr>"
    by (simp add: sample_send_env_def)
  have c: "executed (sample_send_env (Resolved ?r)) = Resolved ?r"
    by (simp add: sample_send_env_def)
  have d: "r_query_type ?r \<noteq> Some ''sql''" and e: "r_query_type ?r \<noteq> Some ''analysis''"
    by (simp_all add: sample_query_response_def)
  have f: "last (messages (sample_submitted ?r)) =
           last (messages (handleSendMessage None (sample_send_env (Resolved ?r))
                   (sample_state\<lparr>input := ''show revenue by month''\<rparr>)))"
    by (simp add: sample_submitted_def)
  from unknown_query_type_plain_text[OF a b c d e f] show ?thesis
    by (simp add: sample_query_response_def or_else_def)
qed

text \<open>
  A response without \<open>query_type\<close>: the turn's \<open>query_type\<close> is not \<open>conversational\<close> and
  the turn is not flagged conversational.
\<close>

theorem missing_query_type_not_conversational:
  "query_type (last (messages (sample_submitted (sample_query_response None [])))) \<noteq>
     Some ''conversational'' \<and>
   \<not> isConversational (last (messages (sample_submitted (sample_query_response None []))))"
proof -
  have "botMessage sample_clock (draws (sample_send_env (Resolved (sample_query_response None []))))
          (sample_query_response None []) =
        Inr ((plain_message (''response-'' @ dec (date_now sample_clock)) False ''Hello there''
                (new_date sample_clock))\<lparr>query_type := None\<rparr>)"
    by (simp add: botMessage_def sample_query_response_def or_else_def Let_def)
  from sample_submitted_messages[OF this] show ?thesis
    by (simp add: isConversational_def)
qed

lemma split_at_separator:
  "c \<notin> set xs \<Longrightarrow> c \<notin> set ys \<Longrightarrow> xs @ c # r = ys @ c # r' \<Longrightarrow> xs = ys \<and> r = r'"
proof (induction xs arbitrary: ys)
  case Nil
  then show ?case by (cases ys) auto
next
  case (Cons x xs)
  then show ?case by (cases ys) auto
qed

lemma synthesized_id_inj:
  "synthesized_id d = synthesized_id d' \<longleftrightarrow>
     draw_now d = draw_now d' \<and> draw_suffix d = draw_suffix d'"
proof
  assume "synthesized_id d = synthesized_id d'"
  then have "dec (draw_now d) @ CHR ''-'' # draw_suffix d =
             dec (draw_now d') @ CHR ''-'' # draw_suffix d'"
    by (simp add: synthesized_id_def)
  from split_at_separator[OF dash_not_in_dec dash_not_in_dec this]
  show "draw_now d = draw_now d' \<and> draw_suffix d = draw_suffix d'"
    by (auto dest: dec_inj)
next
  assume "draw_now d = draw_now d' \<and> draw_suffix d = draw_suffix d'"
  then show "synthesized_id d = synthesized_id d'"
    by (simp add: synthesized_id_def)
qed

lemma synthesized_id_not_empty: "synthesized_id d \<noteq> []"
  by (simp add: synthesized_id_def)

lemma length_tablesWithIds: "length (tablesWithIds ds tbls) = length tbls"
  by (simp add: tablesWithIds_def)

lemma nth_tablesWithIds:
  "i < length tbls \<Longrightarrow> tablesWithIds ds tbls ! i = with_table_id (ds i) (tbls ! i)"
  by (simp add: tablesWithIds_def nth_enumerate_eq)

lemma with_table_id_cases:
  "\<exists>tid. tbl_table_id (with_table_id d tbl) = Some tid \<and> tid \<noteq> [] \<and>
         (truthy (tbl_table_id tbl) \<longrightarrow> tbl_table_id tbl = Some tid) \<and>
         (\<not> truthy (tbl_table_id tbl) \<longrightarrow> tid = synthesized_id d)"
  by (cases "tbl_table_id tbl")
     (simp_all add: with_table_id_def or_else_def truthy_def synthesized_id_not_empty)

lemma with_table_id_rest:
  "with_table_id d tbl = tbl\<lparr>tbl_table_id := tbl_table_id (with_table_id d tbl)\<rparr>"
  by (simp add: with_table_id_def)

text \<open>
  C6 (as amended). For a response of \<open>query_type\<close> \<open>analysis\<close> that carries \<open>tables\<close>,
  every table of the assistant turn has a non-empty \<open>table_id\<close> and is otherwise the
  resolver's table: a table that came with a non-empty id keeps it, any other table gets
  the id synthesized from the draw at its position. Two synthesized ids are equal exactly
  when their draws agree in both the clock reading and the random suffix.
\<close>

theorem analysis_tables_get_ids:
  assumes "\<not> blank (input st)"
      and "needs_session ws st \<longrightarrow> created env = Resolved sessionData"
      and "executed env = Resolved result"
      and "r_query_type result = Some ''analysis''" and "r_tables result = Some tbls"
      and "turn = last (messages (handleSendMessage ws env st))"
  shows "\<exists>ar. analysisResult turn = Some ar \<and> sqlResult turn = None \<and>
           length (tables ar) = length tbls \<and>
           (\<forall>i < length tbls.
              \<exists>tid. tbl_table_id (tables ar ! i) = Some tid \<and> tid \<noteq> [] \<and>
                (truthy (tbl_table_id (tbls ! i)) \<longrightarrow> tbl_table_id (tbls ! i) = Some tid) \<and>
                (\<not> truthy (tbl_table_id (tbls ! i)) \<longrightarrow> tid = synthesized_id (draws env i)) \<and>
                tables ar ! i = (tbls ! i)\<lparr>tbl_table_id := Some tid\<rparr>) \<and>
           (\<forall>i j. synthesized_id (draws env i) = synthesized_id (draws env j) \<longleftrightarrow>
              draw_now (draws env i) = draw_now (draws env j) \<and>
              draw_suffix (draws env i) = draw_suffix (draws env j))"
proof -
  let ?ar = "\<lparr>tables = tablesWithIds (draws env) tbls, analysis_type = r_analysis_type result\<rparr>"
  let ?reply = "(plain_message (''response-'' @ dec (date_now (bot_clock env))) False
                   (or_else (r_text result)
                      (or_else (r_message result) ''Query executed successfully.''))
                   (new_date (bot_clock env)))
                \<lparr>query_type := r_query_type result, analysisResult := Some ?ar\<rparr>"
  have bm: "botMessage (bot_clock env) (draws env) result = Inr ?reply"
    using assms(4,5) by (rule botMessage_analysis)
  have turn: "turn = ?reply"
    using last_reply[OF assms(1,2,3) bm] assms(6) by simp
  have a: "analysisResult turn = Some ?ar" and b: "sqlResult turn = None"
    by (simp_all add: turn plain_message_def)
  have c: "length (tables ?ar) = length tbls"
    by (simp add: length_tablesWithIds)
  have d: "\<forall>i < length tbls.
              \<exists>tid. tbl_table_id (tables ?ar ! i) = Some tid \<and> tid \<noteq> [] \<and>
                (truthy (tbl_table_id (tbls ! i)) \<longrightarrow> tbl_table_id (tbls ! i) = Some tid) \<and>
                (\<not> truthy (tbl_table_id (tbls ! i)) \<longrightarrow> tid = synthesized_id (draws env i)) \<and>
                tables ?ar ! i = (tbls ! i)\<lparr>tbl_table_id := Some tid\<rparr>"
  proof (intro allI impI)
    fix i assume i: "i < length tbls"
    obtain tid where t: "tbl_table_id (with_table_id (draws env i) (tbls ! i)) = Some tid"
        "tid \<noteq> []" "truthy (tbl_table_id (tbls ! i)) \<longrightarrow> tbl_table_id (tbls ! i) = Some tid"
        "\<not> truthy (tbl_table_id (tbls ! i)) \<longrightarrow> tid = synthesized_id (draws env i)"
      using with_table_id_cases[of "draws env i" "tbls ! i"] by (elim exE conjE)
    have "with_table_id (draws env i) (tbls ! i) = (tbls ! i)\<lparr>tbl_table_id := Some tid\<rparr>"
      using with_table_id_rest[of "draws env i" "tbls ! i"] t(1) by simp
    with t i show "\<exists>tid. tbl_table_id (tables ?ar ! i) = Some tid \<and> tid \<noteq> [] \<and>
                (truthy (tbl_table_id (tbls ! i)) \<longrightarrow> tbl_table_id (tbls ! i) = Some tid) \<and>
                (\<not> truthy (tbl_table_id (tbls ! i)) \<longrightarrow> tid = synthesized_id (draws env i)) \<and>
                tables ?ar ! i = (tbls ! i)\<lparr>tbl_table_id := Some tid\<rparr>"
      by (intro exI[where x = tid]) (simp add: nth_tablesWithIds)
  qed
  have e: "\<forall>i j. synthesized_id (draws env i) = synthesized_id (draws env j) \<longleftrightarrow>
              draw_now (draws env i) = draw_now (draws env j) \<and>
              draw_suffix (draws env i) = draw_suffix (draws env j)"
    by (simp add: synthesized_id_inj)
  show ?thesis
    by (intro exI[where x = ?ar] conjI a b c d e)
qed

lemma sample_submitted_analysis:
  "last (messages (sample_submitted (sample_query_response (Some ''analysis'') tbls))) =
     (plain_message ''response-1700000000000'' False ''Hello there'' 1700000000000)
     \<lparr>query_type := Some ''analysis'',
      analysisResult :=
        Some \<lparr>tables = tablesWithIds (\<lambda>i. \<lparr>draw_now = 1700000000000, draw_suffix = ''k3j2h1g''\<rparr>) tbls,
              analysis_type = Some ''comparative''\<rparr>\<rparr>"
proof -
  have "botMessage sample_clock
          (draws (sample_send_env (Resolved (sample_query_response (Some ''analysis'') tbls))))
          (sample_query_response (Some ''analysis'') tbls) =
        Inr ((plain_message ''response-1700000000000'' False ''Hello there'' 1700000000000)
             \<lparr>query_type := Some ''analysis'',
              analysisResult :=
                Some \<lparr>tables = tablesWithIds
                               (\<lambda>i. \<lparr>draw_now = 1700000000000, draw_suffix = ''k3j2h1g''\<rparr>) tbls,
                      analysis_type = Some ''comparative''\<rparr>\<rparr>)"
    by (simp add: botMessage_def sample_query_response_def sample_send_env_def or_else_def
          Let_def sample_clock_def dec_sample)
  then show ?thesis by (rule sample_submitted_messages)
qed

theorem analysis_tables_get_ids_witness:
  "map tbl_table_id (tables (the (analysisResult (last (messages
     (sample_submitted (sample_query_response (Some ''analysis'')
        [sample_table ''t1'' [1, 2], sample_untagged [3, 4]]))))))) =
     [Some ''t1'', Some ''table-1700000000000-k3j2h1g'']"
proof -
  let ?tbls = "[sample_table ''t1'' [1, 2], sample_untagged [3, 4]]"
  let ?r = "sample_query_response (Some ''analysis'') ?tbls"
  let ?turn = "last (messages (sample_submitted ?r))"
  have a: "\<not> blank (input (sample_state\<lparr>input := ''show revenue by month''\<rparr>))"
    by (simp add: sample_input_not_blank)
  have b: "needs_session None (sample_state\<lparr>input := ''show revenue by month''\<rparr>) \<longrightarrow>
           created (sample_send_env (Resolved ?r)) =
             Resolved \<lparr>sd_id = Some ''s9'', sd_name = ''Chat Session''\<rparr>"
    by (simp add: sample_send_env_def)
  have c: "executed (sample_send_env (Resolved ?r)) = Resolved ?r"
    by (simp add: sample_send_env_def)
  have d: "r_query_type ?r = Some ''analysis''" and e: "r_tables ?r = Some ?tbls"
    by (simp_all add: sample_query_response_def)
  have f: "?turn = last (messages (handleSendMessage None (sample_send_env (Resolved ?r))
                   (sample_state\<lparr>input := ''show revenue by month''\<rparr>)))"
    by (simp add: sample_submitted_def)
  from analysis_tables_get_ids[OF a b c d e f] obtain ar where
    ar: "analysisResult ?turn = Some ar" "length (tables ar) = length ?tbls"
    and ids: "\<forall>i < length ?tbls.
              \<exists>tid. tbl_table_id (tables ar ! i) = Some tid \<and> tid \<noteq> [] \<and>
                (truthy (tbl_table_id (?tbls ! i)) \<longrightarrow> tbl_table_id (?tbls ! i) = Some tid) \<and>
                (\<not> truthy (tbl_table_id (?tbls ! i)) \<longrightarrow>
                   tid = synthesized_id (draws (sample_send_env (Resolved ?r)) i)) \<and>
                tables ar ! i = (?tbls ! i)\<lparr>tbl_table_id := Some tid\<rparr>"
    by (elim exE conjE)
  from ids have "tbl_table_id (tables ar ! 0) = Some ''t1''"
    by (auto simp: sample_table_def truthy_def)
  moreover from ids have "tbl_table_id (tables ar ! 1) = Some ''table-1700000000000-k3j2h1g''"
    by (auto simp: sample_untagged_def truthy_def sample_send_env_def synthesized_id_def dec_sample)
  moreover from ar(2) have "tables ar = [tables ar ! 0, tables ar ! 1]"
    by (cases "tables ar"; cases "tl (tables ar)") auto
  ultimately have "map tbl_table_id (tables ar) =
                     [Some ''t1'', Some ''table-1700000000000-k3j2h1g'']"
    by (metis list.simps(8) list.simps(9))
  with ar(1) show ?thesis by simp
qed

text \<open>
  Two tables without \<open>table_id\<close> in one response, the same clock reading and the same
  suffix at both draws: both tables get the same id.
\<close>

theorem synthesized_ids_collide:
  "map tbl_table_id (the (r_tables (sample_query_response (Some ''analysis'')
        [sample_untagged [1, 2], sample_untagged [3, 4]]))) = [None, None] \<and>
   map tbl_table_id (tables (the (analysisResult (last (messages
     (sample_submitted (sample_query_response (Some ''analysis'')
        [sample_untagged [1, 2], sample_untagged [3, 4]]))))))) =
     [Some ''table-1700000000000-k3j2h1g'', Some ''table-1700000000000-k3j2h1g'']"
  by (simp add: sample_submitted_analysis)
     (simp add: sample_query_response_def sample_untagged_def tablesWithIds_def
        with_table_id_def or_else_def synthesized_id_def dec_sample)

subsection \<open>Runs of successful calls\<close>

lemma info_settled_messages:
  "messages (info_settled env s) = messages s @ effect_turns env"
  by (cases "fetched_info env")
     (simp_all add: info_settled_def info_settled_outcome_def info_try_def state_after_def
        effect_turns_def Let_def)

lemma info_settled_frame:
  "input (info_settled env s) = input s \<and> isProcessing (info_settled env s) = isProcessing s"
  by (cases "fetched_info env")
     (simp_all add: info_settled_def info_settled_outcome_def info_try_def state_after_def Let_def)

lemma effect_turns_cases:
  "effect_turns env = [] \<or>
   (\<exists>info. fetched_info env = Resolved info \<and> info_error info \<and>
      effect_turns env = [session_warning_turn env info])"
  by (cases "fetched_info env") (simp_all add: effect_turns_def)

lemma successfulE:
  assumes "successful ws st call"
  obtains result reply where "\<not> blank (typed call)"
    and "executed (call_env call) = Resolved result"
    and "botMessage (bot_clock (call_env call)) (draws (call_env call)) result = Inr reply"
    and "needs_session ws st \<longrightarrow> (\<exists>sessionData. created (call_env call) = Resolved sessionData)"
  using assms unfolding successful_def
  by (auto split: settled.splits sum.splits)

lemma submit_plain:
  assumes "\<not> blank (typed call)" and "\<not> needs_session ws st"
      and "executed (call_env call) = Resolved result"
      and "botMessage (bot_clock (call_env call)) (draws (call_env call)) result = Inr reply"
  shows "submit ws st call =
           st\<lparr>input := [],
              messages := messages st @ [user_turn (call_env call) (typed call), reply],
              isProcessing := False\<rparr>"
proof -
  let ?st0 = "st\<lparr>input := typed call\<rparr>"
  have ns: "\<not> needs_session ws (send_started (call_env call) ?st0)"
    using assms(2) by simp
  have prov: "provision_session ws (call_env call) (send_started (call_env call) ?st0) =
              Inr (send_started (call_env call) ?st0)"
    using ns by (simp add: provision_session_def)
  have eff: "\<not> effect_fetches (sessionId st) (send_started (call_env call) ?st0)"
    by (simp add: effect_fetches_def send_started_def)
  show ?thesis
    using assms(1,3,4) prov eff
    by (cases "effect_timing call")
       (simp_all add: submit_def Let_def send_reply_def send_settled_def state_after_def
          send_started_def)
qed

lemma submit_created:
  assumes "\<not> blank (typed call)" and "needs_session ws st"
      and "created (call_env call) = Resolved sessionData"
      and "executed (call_env call) = Resolved result"
      and "botMessage (bot_clock (call_env call)) (draws (call_env call)) result = Inr reply"
      and "warnings = (if truthy (sd_id sessionData) then effect_turns (effect_env call) else [])"
  shows "messages (submit ws st call) =
           messages st @
             (case effect_timing call of
                BeforeReply \<Rightarrow>
                  [user_turn (call_env call) (typed call),
                   created_turn (call_env call) sessionData] @ warnings @ [reply]
              | AfterReply \<Rightarrow>
                  [user_turn (call_env call) (typed call),
                   created_turn (call_env call) sessionData, reply] @ warnings)"
proof -
  let ?env = "call_env call"
  let ?st0 = "st\<lparr>input := typed call\<rparr>"
  let ?st1 = "(send_started ?env ?st0)\<lparr>sessionId := sd_id sessionData,
                 messages := messages (send_started ?env ?st0) @ [created_turn ?env sessionData]\<rparr>"
  have ns: "needs_session ws (send_started ?env ?st0)"
    using assms(2) by simp
  have prov: "provision_session ws ?env (send_started ?env ?st0) = Inr ?st1"
    using ns assms(3) by (simp add: provision_session_def)
  have old: "\<not> truthy (sessionId st)"
    using assms(2) by (simp add: needs_session_def)
  have eff: "effect_fetches (sessionId st) ?st1 = truthy (sd_id sessionData)"
    using old by (auto simp: effect_fetches_def)
  have reply: "\<And>s. state_after (send_settled ?env (send_reply ?env s)) =
                 s\<lparr>messages := messages s @ [reply], isProcessing := False\<rparr>"
    using assms(4,5) by (simp add: send_reply_def send_settled_def state_after_def)
  have sub: "submit ws st call =
     (let effect = (if truthy (sd_id sessionData) then info_settled (effect_env call)
                    else (\<lambda>s. s))
      in case effect_timing call of
           BeforeReply \<Rightarrow> state_after (send_settled ?env (send_reply ?env (effect ?st1)))
         | AfterReply \<Rightarrow> effect (state_after (send_settled ?env (send_reply ?env ?st1))))"
    using assms(1) prov eff by (simp add: submit_def Let_def)
  have m1: "messages ?st1 =
              messages st @ [user_turn ?env (typed call), created_turn ?env sessionData]"
    by (simp add: send_started_def)
  show ?thesis
  proof (cases "truthy (sd_id sessionData)")
    case True
    with assms(6) have w: "warnings = effect_turns (effect_env call)" by simp
    from True sub reply m1 show ?thesis
      by (cases "effect_timing call") (simp_all add: Let_def info_settled_messages w)
  next
    case False
    with assms(6) have w: "warnings = []" by simp
    from False sub reply m1 show ?thesis
      by (cases "effect_timing call") (simp_all add: Let_def w)
  qed
qed

lemma user_turn_fields:
  "isUser (user_turn env inp) \<and> msg_text (user_turn env inp) = inp \<and>
   sqlResult (user_turn env inp) = None \<and> analysisResult (user_turn env inp) = None"
  by (simp add: user_turn_def plain_message_def)

lemma created_turn_fields:
  "\<not> isUser (created_turn env sd) \<and> sqlResult (created_turn env sd) = None \<and>
   analysisResult (created_turn env sd) = None \<and>
   msg_text (created_turn env sd) = glyph_ok @ '' Created new session: '' @ sd_name sd"
  by (simp add: created_turn_def plain_message_def)

lemma session_warning_turn_fields:
  "\<not> isUser (session_warning_turn env info) \<and> sqlResult (session_warning_turn env info) = None \<and>
   analysisResult (session_warning_turn env info) = None \<and>
   msg_text (session_warning_turn env info) = glyph_warn @ '' '' @ info_description info"
  by (simp add: session_warning_turn_def plain_message_def)

lemma effect_turns_shape:
  "length (effect_turns env :: 'd ChatMessage list) \<le> 1 \<and>
   (\<forall>w \<in> set (effect_turns env :: 'd ChatMessage list).
      \<not> isUser w \<and> sqlResult w = None \<and> analysisResult w = None \<and>
      (\<exists>info. fetched_info env = Resolved info \<and> info_error info \<and>
         msg_text w = glyph_warn @ '' '' @ info_description info))"
  by (cases "fetched_info env") (simp_all add: effect_turns_def session_warning_turn_fields)

lemma effect_turns_no_user: "filter isUser (effect_turns env) = []"
  using effect_turns_shape[of env] by (auto simp: filter_empty_conv)

lemma effect_warns_length:
  assumes "\<not> blank (typed call)" and "needs_session ws st"
      and "created (call_env call) = Resolved sessionData"
  shows "length (if truthy (sd_id sessionData) then effect_turns (effect_env call) else []
                 :: 'd ChatMessage list) =
         (if effect_warns ws st (call :: 'd Call) then 1 else 0)"
proof (cases "fetched_info (effect_env call)")
  case (Rejected e)
  with assms show ?thesis
    by (simp add: effect_warns_def creates_session_def effect_turns_def)
next
  case (Resolved info)
  with assms show ?thesis
    by (simp add: effect_warns_def creates_session_def effect_turns_def)
qed

lemma submit_appends:
  assumes "successful ws st (call :: 'd Call)"
  shows "\<exists>new. messages (submit ws st call) = messages st @ new \<and>
           length new = 2 + (if creates_session ws st call then 1 else 0) +
                            (if effect_warns ws st call then 1 else 0) \<and>
           map msg_text (filter isUser new) = [typed call] \<and>
           (\<not> needs_session ws st \<longrightarrow> sessionId (submit ws st call) = sessionId st)"
proof -
  from assms obtain result reply where nb: "\<not> blank (typed call)"
    and ex: "executed (call_env call) = Resolved result"
    and bm: "botMessage (bot_clock (call_env call)) (draws (call_env call)) result = Inr reply"
    and cr: "needs_session ws st \<longrightarrow> (\<exists>sessionData. created (call_env call) = Resolved sessionData)"
    by (rule successfulE)
  have nu: "\<not> isUser reply" using bm by (rule botMessage_not_user)
  show ?thesis
  proof (cases "needs_session ws st")
    case False
    have c: "\<not> creates_session ws st call" "\<not> effect_warns ws st call"
      using False by (simp_all add: creates_session_def effect_warns_def)
    from submit_plain[OF nb False ex bm] nu c show ?thesis
      by (simp add: user_turn_fields)
  next
    case True
    with cr obtain sessionData where sd: "created (call_env call) = Resolved sessionData"
      by (elim impE exE)
    let ?w = "(if truthy (sd_id sessionData) then effect_turns (effect_env call) else [])
                :: 'd ChatMessage list"
    have c: "creates_session ws st call"
      using True nb sd by (simp add: creates_session_def)
    have wl: "length ?w = (if effect_warns ws st call then 1 else 0)"
      using nb True sd by (rule effect_warns_length)
    have wu: "filter isUser ?w = []"
      by (simp add: effect_turns_no_user)
    from submit_created[OF nb True sd ex bm refl] True nu c wl wu show ?thesis
      by (cases "effect_timing call") (simp_all add: user_turn_fields created_turn_fields)
  qed
qed

lemma auto_created_step:
  "successful ws st call \<Longrightarrow> creates_session ws st call = needs_session ws st"
  by (erule successfulE) (auto simp: creates_session_def)

lemma submit_all_successful:
  "all_successful ws st calls \<Longrightarrow>
   \<exists>new. messages (submit_all ws st calls) = messages st @ new \<and>
         length new = 2 * length calls + auto_created ws st calls + effect_warnings ws st calls \<and>
         map msg_text (filter isUser new) = map typed calls"
proof (induction calls arbitrary: st)
  case Nil
  then show ?case by simp
next
  case (Cons call calls)
  from Cons.prems have s: "successful ws st call"
    and rest: "all_successful ws (submit ws st call) calls" by simp_all
  from submit_appends[OF s] obtain new1 where
    n1: "messages (submit ws st call) = messages st @ new1"
        "length new1 = 2 + (if creates_session ws st call then 1 else 0) +
                           (if effect_warns ws st call then 1 else 0)"
        "map msg_text (filter isUser new1) = [typed call]" by (elim exE conjE)
  from Cons.IH[OF rest] obtain new2 where
    n2: "messages (submit_all ws (submit ws st call) calls) = messages (submit ws st call) @ new2"
        "length new2 = 2 * length calls + auto_created ws (submit ws st call) calls +
                       effect_warnings ws (submit ws st call) calls"
        "map msg_text (filter isUser new2) = map typed calls" by (elim exE conjE)
  have a: "messages (submit_all ws st (call # calls)) = messages st @ (new1 @ new2)"
    using n1(1) n2(1) by simp
  have b: "length (new1 @ new2) =
             2 * length (call # calls) + auto_created ws st (call # calls) +
             effect_warnings ws st (call # calls)"
    using n1(2) n2(2) by simp
  have c: "map msg_text (filter isUser (new1 @ new2)) = map typed (call # calls)"
    using n1(3) n2(3) by simp
  show ?case
    by (intro exI[where x = "new1 @ new2"] conjI a b c)
qed

lemma no_session_created:
  "all_successful ws st calls \<Longrightarrow> \<not> needs_session ws st \<Longrightarrow>
   auto_created ws st calls = 0 \<and> effect_warnings ws st calls = 0"
proof (induction calls arbitrary: st)
  case Nil
  then show ?case by simp
next
  case (Cons call calls)
  from Cons.prems have s: "successful ws st call"
    and rest: "all_successful ws (submit ws st call) calls" by simp_all
  from submit_appends[OF s] Cons.prems(2)
  have "sessionId (submit ws st call) = sessionId st" by (elim exE conjE) simp
  with Cons.prems(2) have "\<not> needs_session ws (submit ws st call)"
    by (simp add: needs_session_def)
  from Cons.IH[OF rest this] Cons.prems(2) show ?case
    by (simp add: creates_session_def effect_warns_def)
qed

lemma submit_all_snoc:
  "submit_all ws st (calls @ [call]) = submit ws (submit_all ws st calls) call"
  by (induction calls arbitrary: st) simp_all

lemma submit_all_take_Suc:
  "k < length calls \<Longrightarrow>
   submit_all ws st (take (Suc k) calls) = submit ws (submit_all ws st (take k calls)) (calls ! k)"
  by (simp add: take_Suc_conv_app_nth submit_all_snoc)

lemma all_successful_nth:
  "all_successful ws st calls \<Longrightarrow> k < length calls \<Longrightarrow>
   successful ws (submit_all ws st (take k calls)) (calls ! k)"
proof (induction calls arbitrary: st k)
  case Nil
  then show ?case by simp
next
  case (Cons call calls)
  show ?case
  proof (cases k)
    case 0
    with Cons.prems show ?thesis by simp
  next
    case (Suc j)
    with Cons.prems have "all_successful ws (submit ws st call) calls" and "j < length calls"
      by simp_all
    from Cons.IH[OF this] Suc show ?thesis by simp
  qed
qed

lemma submit_shape:
  assumes "successful ws st (call :: 'd Call)"
  shows "\<exists>u a.
           isUser u \<and> msg_text u = typed call \<and> sqlResult u = None \<and> analysisResult u = None \<and>
           \<not> isUser a \<and>
           (\<exists>result. executed (call_env call) = Resolved result \<and>
              botMessage (bot_clock (call_env call)) (draws (call_env call)) result = Inr a) \<and>
           (if needs_session ws st
            then \<exists>sd s ws'.
                   created (call_env call) = Resolved sd \<and>
                   \<not> isUser s \<and> sqlResult s = None \<and> analysisResult s = None \<and>
                   msg_text s = glyph_ok @ '' Created new session: '' @ sd_name sd \<and>
                   length ws' \<le> 1 \<and>
                   (\<forall>w \<in> set ws'.
                      \<not> isUser w \<and> sqlResult w = None \<and> analysisResult w = None \<and>
                      (\<exists>info. fetched_info (effect_env call) = Resolved info \<and> info_error info \<and>
                         msg_text w = glyph_warn @ '' '' @ info_description info)) \<and>
                   messages (submit ws st call) =
                     messages st @
                       (case effect_timing call of
                          BeforeReply \<Rightarrow> [u, s] @ ws' @ [a]
                        | AfterReply \<Rightarrow> [u, s, a] @ ws')
            else messages (submit ws st call) = messages st @ [u, a])"
proof -
  from assms obtain result reply where nb: "\<not> blank (typed call)"
    and ex: "executed (call_env call) = Resolved result"
    and bm: "botMessage (bot_clock (call_env call)) (draws (call_env call)) result = Inr reply"
    and cr: "needs_session ws st \<longrightarrow> (\<exists>sessionData. created (call_env call) = Resolved sessionData)"
    by (rule successfulE)
  have nu: "\<not> isUser reply" using bm by (rule botMessage_not_user)
  let ?u = "user_turn (call_env call) (typed call)"
  have rs: "\<exists>result. executed (call_env call) = Resolved result \<and>
              botMessage (bot_clock (call_env call)) (draws (call_env call)) result = Inr reply"
    using ex bm by blast
  show ?thesis
  proof (cases "needs_session ws st")
    case False
    have "messages (submit ws st call) = messages st @ [?u, reply]"
      using submit_plain[OF nb False ex bm] by simp
    with False nu rs show ?thesis
      by (intro exI[where x = ?u] exI[where x = reply]) (simp add: user_turn_fields)
  next
    case True
    with cr obtain sd where sd: "created (call_env call) = Resolved sd"
      by (elim impE exE)
    let ?s = "created_turn (call_env call) sd"
    let ?w = "(if truthy (sd_id sd) then effect_turns (effect_env call) else [])
                :: 'd ChatMessage list"
    have w: "length ?w \<le> 1 \<and>
             (\<forall>w \<in> set ?w.
                \<not> isUser w \<and> sqlResult w = None \<and> analysisResult w = None \<and>
                (\<exists>info. fetched_info (effect_env call) = Resolved info \<and> info_error info \<and>
                   msg_text w = glyph_warn @ '' '' @ info_description info))"
      using effect_turns_shape[of "effect_env call", where ?'d = 'd] by auto
    have m: "messages (submit ws st call) =
               messages st @
                 (case effect_timing call of
                    BeforeReply \<Rightarrow> [?u, ?s] @ ?w @ [reply]
                  | AfterReply \<Rightarrow> [?u, ?s, reply] @ ?w)"
      using submit_created[OF nb True sd ex bm refl] by simp
    have inner: "\<exists>sd s ws'.
                   created (call_env call) = Resolved sd \<and>
                   \<not> isUser s \<and> sqlResult s = None \<and> analysisResult s = None \<and>
                   msg_text s = glyph_ok @ '' Created new session: '' @ sd_name sd \<and>
                   length ws' \<le> 1 \<and>
                   (\<forall>w \<in> set ws'.
                      \<not> isUser w \<and> sqlResult w = None \<and> analysisResult w = None \<and>
                      (\<exists>info. fetched_info (effect_env call) = Resolved info \<and> info_error info \<and>
                         msg_text w = glyph_warn @ '' '' @ info_description info)) \<and>
                   messages (submit ws st call) =
                     messages st @
                       (case effect_timing call of
                          BeforeReply \<Rightarrow> [?u, s] @ ws' @ [reply]
                        | AfterReply \<Rightarrow> [?u, s, reply] @ ws')"
      using sd w m
      by (intro exI[where x = sd] exI[where x = ?s] exI[where x = ?w])
         (simp add: created_turn_fields)
    from True nu rs inner show ?thesis
      by (intro exI[where x = ?u] exI[where x = reply]) (simp add: user_turn_fields)
  qed
qed

lemma sample_call_successful: "successful ws st (sample_call failed t)"
  by (simp add: successful_def sample_call_def sample_send_env_def sample_query_response_def
        botMessage_def Let_def sample_input_not_blank)

lemma sample_call_creates:
  "sessionId (submit (Some ''w1'') (initial_state 0) (sample_call True BeforeReply)) = Some ''s9''"
  by (simp add: submit_def sample_call_def sample_send_env_def sample_input_not_blank
        provision_session_def needs_session_def send_started_def initial_state_def truthy_def
        effect_fetches_def info_settled_def info_settled_outcome_def info_try_def
        sample_info_env_def sample_info_def send_settled_def send_reply_def state_after_def
        sample_query_response_def botMessage_def Let_def)




subsection \<open>Loading and selecting a session\<close>

lemmas load_defs = loadSessionMessages_def loadSessionMessages_outcome_def load_try_def
  state_after_def

lemma loadSessionMessages_rejected:
  "fetched_messages env = Rejected e \<Longrightarrow>
   loadSessionMessages env st = st\<lparr>messages := [error_loading_turn env]\<rparr>"
  by (simp add: load_defs)

lemma loadSessionMessages_frame:
  "sessionId (loadSessionMessages env st) = sessionId st \<and>
   messages (loadSessionMessages env st) = messages (loadSessionMessages env st')"
  by (cases "fetched_messages env") (simp_all add: load_defs Let_def)

lemma info_settled_sessionId:
  "sessionId (info_settled env st) =
     (case fetched_info env of Rejected e \<Rightarrow> None | Resolved info \<Rightarrow> sessionId st)"
  by (cases "fetched_info env")
     (simp_all add: info_settled_def info_settled_outcome_def info_try_def state_after_def Let_def)

lemma fetchSessionInfo_settled:
  "fetchSessionInfo sid env st = (if truthy sid then info_settled env st else st)"
  by (simp add: fetchSessionInfo_def fetchSessionInfo_outcome_def info_settled_def state_after_def)

lemma nothing_escapes:
  "escaped (loadSessionMessages_outcome lenv s) = None \<and>
   escaped (info_settled_outcome ienv s) = None \<and>
   escaped (fetchSessionInfo_outcome sid ienv s) = None"
proof -
  have a: "escaped (loadSessionMessages_outcome lenv s) = None"
    by (cases "load_try lenv s") (simp_all add: loadSessionMessages_outcome_def escaped_def)
  have b: "escaped (info_settled_outcome ienv s) = None"
    by (cases "info_try ienv s") (simp_all add: info_settled_outcome_def escaped_def)
  have c: "escaped (fetchSessionInfo_outcome sid ienv s) = None"
    using b by (simp add: fetchSessionInfo_outcome_def escaped_def)
  from a b c show ?thesis by (intro conjI)
qed

text \<open>The state after a selection, for each position of the effect's settlement.\<close>

lemma select_session_messages:
  assumes "own = (if truthy (sessionId st) then effect_turns ienv else [])"
      and "eff = (if Some sel \<noteq> sessionId st \<and> sel \<noteq> [] then effect_turns ienv' else [])"
  shows "messages (select_session sel loading_date lenv ienv ienv' pos st) =
           messages (loadSessionMessages lenv st) @
             (case pos of EffectFirst \<Rightarrow> own | EffectBetween \<Rightarrow> eff @ own
              | EffectLast \<Rightarrow> own @ eff)"
proof -
  define st1 :: "'a ChatState" where "st1 = select_started sel loading_date st"
  define loaded where "loaded = messages (loadSessionMessages lenv st)"
  have fetches: "effect_fetches (sessionId st) st1 = (Some sel \<noteq> sessionId st \<and> sel \<noteq> [])"
    by (auto simp: st1_def effect_fetches_def select_started_def truthy_def)
  have load: "\<And>s. messages (loadSessionMessages lenv s) = loaded"
    unfolding loaded_def using loadSessionMessages_frame by blast
  show ?thesis
    unfolding select_session_def Let_def st1_def[symmetric] loaded_def[symmetric]
    by (cases pos)
       (simp_all add: fetches fetchSessionInfo_settled info_settled_messages load assms)
qed

lemma select_session_sessionId:
  "sessionId (select_session sel loading_date lenv ienv ienv' pos st) =
     (if (Some sel \<noteq> sessionId st \<and> sel \<noteq> [] \<and> (\<exists>e. fetched_info ienv' = Rejected e)) \<or>
         (truthy (sessionId st) \<and> (\<exists>e. fetched_info ienv = Rejected e))
      then None else Some sel)"
proof -
  define st1 :: "'a ChatState" where "st1 = select_started sel loading_date st"
  have fetches: "effect_fetches (sessionId st) st1 = (Some sel \<noteq> sessionId st \<and> sel \<noteq> [])"
    by (auto simp: st1_def effect_fetches_def select_started_def truthy_def)
  have start: "sessionId st1 = Some sel"
    by (simp add: st1_def select_started_def)
  have load: "\<And>s. sessionId (loadSessionMessages lenv s) = sessionId s"
    using loadSessionMessages_frame by blast
  show ?thesis
    unfolding select_session_def Let_def st1_def[symmetric]
    by (cases pos; cases "fetched_info ienv"; cases "fetched_info ienv'")
       (simp_all add: fetches fetchSessionInfo_settled info_settled_sessionId load start)
qed

text \<open>
  C4 (as amended). Loading a session without persisted messages leaves exactly two turns:
  the welcome message and the notice that the session was loaded. The transcript is not
  empty.
\<close>

theorem empty_session_two_turns:
  assumes "fetched_messages env = Resolved []"
  shows "messages (loadSessionMessages env st) =
           [plain_message ''welcome'' False welcome_text (welcome_date env),
            empty_session_turn env] \<and>
         msg_text (empty_session_turn env :: 'd ChatMessage) =
           glyph_ok @ '' Session loaded (no previous messages)'' \<and>
         length (messages (loadSessionMessages env st)) = 2 \<and>
         messages (loadSessionMessages env st) \<noteq> []"
  using assms
  by (simp add: load_defs convertedMessages_def empty_session_turn_def plain_message_def)

theorem empty_session_two_turns_witness:
  "map msg_id (messages (loadSessionMessages (sample_load_env (Resolved [])) sample_state)) =
     [''welcome'', ''system-1700000000000'']"
proof -
  have "fetched_messages (sample_load_env (Resolved [])) =
          (Resolved [] :: nat list StoredMessage list settled)"
    by (simp add: sample_load_env_def)
  from empty_session_two_turns[OF this, of sample_state] show ?thesis
    by (simp add: plain_message_def empty_session_turn_def sample_load_env_def sample_clock_def
          dec_sample)
qed

text \<open>The transcript after loading an empty session does not have length one.\<close>

theorem empty_session_not_one_turn:
  "length (messages (loadSessionMessages (sample_load_env (Resolved [])) sample_state)) \<noteq> 1"
  by (simp add: load_defs sample_load_env_def convertedMessages_def)

text \<open>
  C2. The conversion of a persisted message whose \<open>query_result\<close> has both \<open>sql\<close> and
  \<open>tables\<close> populates both \<open>sqlResult\<close> and \<open>analysisResult\<close>.
\<close>

theorem convertMessage_both_results:
  "sqlResult (convertMessage (conversions (sample_load_env (Resolved [])) 0) sample_stored_both) =
     Some \<lparr>sql = ''SELECT 1'', data = [1, 2], error = None,
           pagination = Some (sample_page 1 ''t0''), table_id = Some ''t0''\<rparr> \<and>
   analysisResult (convertMessage (conversions (sample_load_env (Resolved [])) 0)
       sample_stored_both) =
     Some \<lparr>tables = [sample_table ''t1'' [1, 2], sample_table ''t2'' [3, 4]],
           analysis_type = Some ''comparative''\<rparr>"
  by (simp add: convertMessage_def sample_stored_both_def truthy_def or_else_def sample_page_def)

text \<open>
  Such a turn is rendered with its analysis tables, and a page change requested for one
  of them replaces the rows of the sql result, which is not shown, and leaves the table on
  its page. A fresh submit never populates both.
\<close>

lemma both_results_page_change_misses_table:
  assumes "turn = convertMessage (conversions (sample_load_env (Resolved [])) 0) sample_stored_both"
  shows "renders_analysis turn \<and> \<not> renders_sql turn \<and>
         analysisResult (update_message sample_response (msg_id turn) ''t1'' turn) =
           analysisResult turn \<and>
         map_option data (sqlResult (update_message sample_response (msg_id turn) ''t1'' turn)) =
           Some [5, 6]"
  using assms
  by (simp add: convertMessage_def sample_stored_both_def truthy_def or_else_def queryType_def
        renders_analysis_def renders_sql_def update_message_def sample_response_def)

lemma submit_never_both:
  assumes "\<not> blank (input st)"
      and "needs_session ws st \<longrightarrow> created env = Resolved sessionData"
      and "executed env = Resolved result"
      and "botMessage (bot_clock env) (draws env) result = Inr reply"
  shows "sqlResult (last (messages (handleSendMessage ws env st))) = None \<or>
         analysisResult (last (messages (handleSendMessage ws env st))) = None"
  using last_reply[OF assms] botMessage_one_result[OF assms(4)] by simp




end
